theory Spec2Isabelle
  imports Main
begin

section \<open>JavaScript values\<close>

text \<open>
  Every value the server handles arrives as parsed JSON (request bodies, gateway
  payloads) and every frame it sends is an object literal passed to
  \<^verbatim>\<open>JSON.stringify\<close>. Both are modelled by one datatype. \<open>JUndefined\<close> is the value of a
  missing property and \<open>JNaN\<close> is \<^verbatim>\<open>NaN\<close>, which \<^verbatim>\<open>parseInt\<close> can return. Numbers are the
  integers (gateway opcodes, sequence numbers, intervals and activity type codes are
  integers), and strings are lists of bytes, the UTF-8 form of the text.
\<close>

datatype jsval =
    JUndefined
  | JNull
  | JBool bool
  | JNum int
  | JNaN
  | JStr string
  | JArr "jsval list"
  | JObj "(string \<times> jsval) list"

datatype error = TypeError

text \<open>JavaScript's ToBoolean, as used by \<^verbatim>\<open>if (x)\<close>, \<^verbatim>\<open>!x\<close> and \<^verbatim>\<open>x ? a : b\<close>.\<close>

fun truthy :: "jsval \<Rightarrow> bool" where
  "truthy JUndefined = False"
| "truthy JNull = False"
| "truthy (JBool b) = b"
| "truthy (JNum n) = (n \<noteq> 0)"
| "truthy JNaN = False"
| "truthy (JStr s) = (s \<noteq> [])"
| "truthy (JArr xs) = True"
| "truthy (JObj kvs) = True"

text \<open>Reading a property of \<^verbatim>\<open>null\<close> or \<^verbatim>\<open>undefined\<close> throws a TypeError.\<close>

definition nullish :: "jsval \<Rightarrow> bool" where
  "nullish v = (v = JUndefined \<or> v = JNull)"

text \<open>
  Property access \<^verbatim>\<open>v.k\<close> on a value that is not nullish. A parsed JSON object keeps the
  last binding of a repeated key; the JSON primitives and arrays have none of the
  properties the server reads (\<^verbatim>\<open>name\<close>, \<^verbatim>\<open>type\<close>, \<^verbatim>\<open>op\<close>, ...), so the access
  gives \<^verbatim>\<open>undefined\<close>.
\<close>

definition field :: "jsval \<Rightarrow> string \<Rightarrow> jsval" where
  "field v k =
     (case v of
        JObj kvs \<Rightarrow> (case map_of (rev kvs) k of Some x \<Rightarrow> x | None \<Rightarrow> JUndefined)
      | _ \<Rightarrow> JUndefined)"

subsection \<open>String helpers\<close>

definition startsWith :: "string \<Rightarrow> string \<Rightarrow> bool" where
  "startsWith s p = (take (length p) s = p)"

text \<open>\<^verbatim>\<open>s.split(c)\<close> for a one-character separator: never empty, \<^verbatim>\<open>''.split(c)\<close> is \<^verbatim>\<open>['']\<close>.\<close>

fun split :: "char \<Rightarrow> string \<Rightarrow> string list" where
  "split c [] = [[]]"
| "split c (x # xs) =
     (if x = c then [] # split c xs
      else (case split c xs of
              y # ys \<Rightarrow> (x # y) # ys
            | [] \<Rightarrow> [[x]]))"

text \<open>\<^verbatim>\<open>s.split(c).pop()\<close>: the last piece.\<close>

definition split_pop :: "char \<Rightarrow> string \<Rightarrow> string" where
  "split_pop c s = last (split c s)"

section \<open>Artwork normalisation and the presence frame\<close>

text \<open>
  \<^verbatim>\<open>extractSpotifyImageId(url)\<close>. A truthy \<open>url\<close> that is not a string has no
  \<^verbatim>\<open>startsWith\<close> method, so the call throws.
\<close>

definition extractSpotifyImageId :: "jsval \<Rightarrow> error + jsval" where
  "extractSpotifyImageId url =
     (if \<not> truthy url then Inr JNull
      else (case url of
              JStr s \<Rightarrow>
                (if startsWith s ''https://i.scdn.co/image/'' then Inr (JStr (split_pop CHR ''/'' s))
                 else if startsWith s ''spotify:'' then Inr (JStr (split_pop CHR '':'' s))
                 else Inr JNull)
            | _ \<Rightarrow> Inl TypeError))"

text \<open>The template literal \<^verbatim>\<open>`spotify:${imageId}`\<close>; \<open>imageId\<close> is a string where it is used.\<close>

definition spotifyRef :: "jsval \<Rightarrow> jsval" where
  "spotifyRef imageId = (case imageId of JStr i \<Rightarrow> JStr (''spotify:'' @ i) | _ \<Rightarrow> JUndefined)"

text \<open>
  The \<open>assets\<close> object of \<^verbatim>\<open>updatePresence\<close>: it starts empty and gains keys only inside
  \<^verbatim>\<open>if (activityData.imageUrl)\<close>.
\<close>

definition buildAssets :: "jsval \<Rightarrow> error + (string \<times> jsval) list" where
  "buildAssets activityData =
     (if truthy (field activityData ''imageUrl'') then
        (case extractSpotifyImageId (field activityData ''imageUrl'') of
           Inl e \<Rightarrow> Inl e
         | Inr imageId \<Rightarrow>
             Inr ((if truthy imageId then [(''large_image'', spotifyRef imageId)] else []) @
                  (if truthy (field activityData ''imageText'')
                   then [(''large_text'', field activityData ''imageText'')] else [])))
      else Inr [])"

text \<open>
  \<^verbatim>\<open>parseInt\<close> is a function of the JavaScript engine, not of this program: it is a
  parameter \<open>P\<close> of the composer and, further down, a field of the process state. It
  returns a number or \<^verbatim>\<open>NaN\<close>, or throws (converting its argument to a string can throw).
\<close>

type_synonym builtin = "jsval \<Rightarrow> error + jsval"

text \<open>
  The local \<open>activity\<close> of \<^verbatim>\<open>updatePresence\<close>: \<^verbatim>\<open>null\<close> unless the name is truthy. The first
  property read, \<^verbatim>\<open>activityData.name\<close>, throws on \<^verbatim>\<open>null\<close> and \<^verbatim>\<open>undefined\<close>. The object
  literal calls \<^verbatim>\<open>parseInt\<close> before the assets are filled in.
\<close>

definition buildActivity :: "builtin \<Rightarrow> jsval \<Rightarrow> error + jsval" where
  "buildActivity P activityData =
     (if nullish activityData then Inl TypeError
      else if truthy (field activityData ''name'') then
        (case P (field activityData ''type'') of
           Inl e \<Rightarrow> Inl e
         | Inr t \<Rightarrow>
             (case buildAssets activityData of
                Inl e \<Rightarrow> Inl e
              | Inr assets \<Rightarrow>
                  Inr (JObj [(''name'', field activityData ''name''),
                             (''type'', t),
                             (''details'', field activityData ''details''),
                             (''state'', field activityData ''state''),
                             (''assets'', JObj assets)])))
      else Inr JNull)"

definition presenceUpdate :: "jsval \<Rightarrow> jsval" where
  "presenceUpdate activity =
     JObj [(''op'', JNum 3),
           (''d'', JObj [(''since'', JNum 0),
                         (''activities'', JArr (if truthy activity then [activity] else [])),
                         (''status'', JStr ''online''),
                         (''afk'', JBool False)])]"

text \<open>The frame \<^verbatim>\<open>updatePresence\<close> builds from its argument, or the exception it throws.\<close>

definition compose :: "builtin \<Rightarrow> jsval \<Rightarrow> error + jsval" where
  "compose P activityData =
     (case buildActivity P activityData of
        Inl e \<Rightarrow> Inl e
      | Inr activity \<Rightarrow> Inr (presenceUpdate activity))"

section \<open>The process state\<close>

text \<open>
  The server is event driven: every handler runs to completion on one thread. The model
  is a state record and one function per handler. Objects that handlers share by
  reference (connections, sockets, timers) live in stores indexed by handles, which a
  single counter allocates.
\<close>

datatype readyState = CONNECTING | OPEN | CLOSING | CLOSED

text \<open>
  The two server variants. \<open>WithHub\<close> is \<^verbatim>\<open>server.js\<close>; \<open>Plain\<close> is the variant
  without \<^verbatim>\<open>notifyClient\<close>, the client socket server and \<^verbatim>\<open>startKeepAlive\<close>.
\<close>

datatype variant = WithHub | Plain

text \<open>A rejected promise keeps the message of the error it was rejected with.\<close>

datatype promise = Pending | Fulfilled | Rejected jsval

text \<open>The callback of a running \<^verbatim>\<open>setInterval\<close>, with the connection it closes over.\<close>

datatype timer = HeartbeatTimer nat | KeepAliveTimer nat

text \<open>What the process does to the outside, in order.\<close>

datatype action =
    NewSocket nat
  | Send nat jsval
  | Close nat
  | SetInterval nat timer jsval
  | ClearInterval nat
  | SetTimeout nat nat nat
  | ClientSend nat jsval
  | Respond nat jsval

text \<open>The fields of \<^verbatim>\<open>class DiscordConnection\<close>, as its constructor declares them.\<close>

record DiscordConnection =
  token :: jsval
  sessionId :: string
  ws :: "nat option"
  heartbeatTask :: "nat option"
  lastSequence :: jsval
  heartbeatAcked :: bool
  shouldReconnect :: bool
  currentActivity :: jsval
  keepAliveTask :: "nat option"

definition newDiscordConnection :: "jsval \<Rightarrow> string \<Rightarrow> DiscordConnection" where
  "newDiscordConnection tok sid =
     \<lparr>token = tok, sessionId = sid, ws = None, heartbeatTask = None, lastSequence = JNull,
      heartbeatAcked = True, shouldReconnect = True, currentActivity = JNull,
      keepAliveTask = None\<rparr>"

text \<open>
  A gateway socket made by \<^verbatim>\<open>connect()\<close>: its \<^verbatim>\<open>readyState\<close> and the connection
  (\<^verbatim>\<open>this\<close>) its handlers close over. The promise of the same \<^verbatim>\<open>connect()\<close> call, whose
  \<^verbatim>\<open>resolve\<close> and \<^verbatim>\<open>reject\<close> the handlers also close over, has the socket's handle.
\<close>

record gatewaySocket =
  readyState :: readyState
  owner :: nat

text \<open>A browser-facing socket of the hub, with the \<^verbatim>\<open>clientSessionId\<close> of its closure.\<close>

record clientSocket =
  clientState :: readyState
  clientSessionId :: jsval

record world =
  variant :: variant
  parseInt :: builtin
  heap :: "nat \<Rightarrow> DiscordConnection"
  sockets :: "nat \<Rightarrow> gatewaySocket"
  promises :: "nat \<Rightarrow> promise"
  awaiting :: "nat \<Rightarrow> (string \<times> nat) option"
  activeConnections :: "jsval \<Rightarrow> nat option"
  clientWebSockets :: "jsval \<Rightarrow> nat option"
  clients :: "nat \<Rightarrow> clientSocket"
  intervals :: "nat \<Rightarrow> timer option"
  timeouts :: "nat \<Rightarrow> nat option"
  fresh :: nat
  trace :: "action list"
  crashed :: bool

text \<open>
  \<open>parseInt\<close> is the engine's function and never changes. \<open>awaiting\<close> holds the
  \<^verbatim>\<open>/api/connect\<close> requests suspended at \<^verbatim>\<open>await connection.connect()\<close>: the promise
  awaited, with the request's \<open>sessionId\<close> and \<open>connection\<close>. \<open>crashed\<close> is set when an
  exception escapes an event handler.
\<close>

definition init :: "variant \<Rightarrow> builtin \<Rightarrow> world" where
  "init v P =
     \<lparr>variant = v,
      parseInt = P,
      heap = (\<lambda>_. newDiscordConnection JUndefined []),
      sockets = (\<lambda>_. \<lparr>readyState = CLOSED, owner = 0\<rparr>),
      promises = (\<lambda>_. Pending),
      awaiting = (\<lambda>_. None),
      activeConnections = (\<lambda>_. None),
      clientWebSockets = (\<lambda>_. None),
      clients = (\<lambda>_. \<lparr>clientState = CLOSED, clientSessionId = JNull\<rparr>),
      intervals = (\<lambda>_. None),
      timeouts = (\<lambda>_. None),
      fresh = 0,
      trace = [],
      crashed = False\<rparr>"

definition emit :: "action \<Rightarrow> world \<Rightarrow> world" where
  "emit a w = w\<lparr>trace := trace w @ [a]\<rparr>"

text \<open>Assignment to fields of the connection \<open>c\<close>.\<close>

definition upd :: "nat \<Rightarrow> (DiscordConnection \<Rightarrow> DiscordConnection) \<Rightarrow> world \<Rightarrow> world" where
  "upd c f w = w\<lparr>heap := (heap w)(c := f (heap w c))\<rparr>"

subsection \<open>The platform: sockets, timers, promises\<close>

definition setState :: "nat \<Rightarrow> readyState \<Rightarrow> world \<Rightarrow> world" where
  "setState k st w = w\<lparr>sockets := (sockets w)(k := (sockets w k)\<lparr>readyState := st\<rparr>)\<rparr>"

text \<open>
  \<^verbatim>\<open>ws.close()\<close> of the socket library starts the closing handshake of an open or
  connecting socket, which becomes \<open>CLOSING\<close>; on a closing or closed socket it does
  nothing. The \<^verbatim>\<open>close\<close> event comes later, as an event of its own.
\<close>

definition ws_close :: "nat \<Rightarrow> world \<Rightarrow> world" where
  "ws_close k w =
     (if readyState (sockets w k) = OPEN \<or> readyState (sockets w k) = CONNECTING
      then emit (Close k) (setState k CLOSING w)
      else w)"

text \<open>\<^verbatim>\<open>ws.send(JSON.stringify(v))\<close>: the call is recorded with the value serialised.\<close>

definition ws_send :: "nat \<Rightarrow> jsval \<Rightarrow> world \<Rightarrow> world" where
  "ws_send k v w = emit (Send k v) w"

definition setInterval :: "timer \<Rightarrow> jsval \<Rightarrow> world \<Rightarrow> nat \<times> world" where
  "setInterval cb ms w =
     (fresh w, emit (SetInterval (fresh w) cb ms)
                 (w\<lparr>intervals := (intervals w)(fresh w \<mapsto> cb), fresh := Suc (fresh w)\<rparr>))"

definition clearInterval :: "nat \<Rightarrow> world \<Rightarrow> world" where
  "clearInterval h w = emit (ClearInterval h) (w\<lparr>intervals := (intervals w)(h := None)\<rparr>)"

text \<open>\<^verbatim>\<open>setTimeout(() => this.connect(), ms)\<close>; the handle is dropped by the caller.\<close>

definition setTimeout :: "nat \<Rightarrow> nat \<Rightarrow> world \<Rightarrow> world" where
  "setTimeout c ms w =
     emit (SetTimeout (fresh w) c ms)
       (w\<lparr>timeouts := (timeouts w)(fresh w \<mapsto> c), fresh := Suc (fresh w)\<rparr>)"

text \<open>A promise settles once; later calls of \<^verbatim>\<open>resolve\<close> or \<^verbatim>\<open>reject\<close> do nothing.\<close>

definition resolve :: "nat \<Rightarrow> world \<Rightarrow> world" where
  "resolve p w = (if promises w p = Pending then w\<lparr>promises := (promises w)(p := Fulfilled)\<rparr> else w)"

definition reject :: "nat \<Rightarrow> jsval \<Rightarrow> world \<Rightarrow> world" where
  "reject p msg w =
     (if promises w p = Pending then w\<lparr>promises := (promises w)(p := Rejected msg)\<rparr> else w)"

definition respond :: "nat \<Rightarrow> jsval \<Rightarrow> world \<Rightarrow> world" where
  "respond status body w = emit (Respond status body) w"

subsection \<open>The notification hub\<close>

definition notifyClient :: "string \<Rightarrow> jsval \<Rightarrow> world \<Rightarrow> world" where
  "notifyClient sid data w =
     (if variant w = Plain then w
      else (case clientWebSockets w (JStr sid) of
              None \<Rightarrow> w
            | Some clientWs \<Rightarrow>
                (if clientState (clients w clientWs) = OPEN then emit (ClientSend clientWs data) w
                 else w)))"

text \<open>The texts of the notifications are Japanese; they are given as their UTF-8 bytes.\<close>

definition utf8 :: "nat list \<Rightarrow> string" where
  "utf8 bs = map char_of bs"

definition discord_disconnected :: jsval where
  "discord_disconnected =
     JObj [(''type'', JStr ''discord_disconnected''),
           (''message'', JStr (utf8 [229, 136, 135, 230, 150, 173, 227, 129, 149, 227, 130, 140,
              227, 129, 190, 227, 129, 151, 227, 129, 159, 227, 128, 130, 229, 134, 141, 230, 142,
              165, 231, 182, 154, 228, 184, 173, 46, 46, 46]))]"

definition discord_ready :: jsval where
  "discord_ready =
     JObj [(''type'', JStr ''discord_ready''),
           (''message'', JStr (utf8 [68, 105, 115, 99, 111, 114, 100, 230, 142, 165, 231, 182,
              154, 230, 136, 144, 229, 138, 159]))]"

definition session_ended :: jsval where
  "session_ended =
     JObj [(''type'', JStr ''session_ended''),
           (''message'', JStr (utf8 [227, 130, 187, 227, 131, 131, 227, 130, 183, 227, 131, 167,
              227, 131, 179, 227, 129, 140, 231, 181, 130, 228, 186, 134, 227, 129, 151, 227, 129,
              190, 227, 129, 151, 227, 129, 159]))]"

definition hello :: jsval where
  "hello =
     JObj [(''type'', JStr ''hello''),
           (''message'', JStr (utf8 [87, 101, 98, 83, 111, 99, 107, 101, 116, 230, 142, 165, 231,
              182, 154, 230, 136, 144, 229, 138, 159]))]"

section \<open>DiscordConnection\<close>

text \<open>
  \<^verbatim>\<open>connect()\<close>: a new socket in state \<open>CONNECTING\<close> is stored in \<^verbatim>\<open>this.ws\<close> and a new
  pending promise is returned. The four handlers it installs are \<open>onMessage\<close>,
  \<open>onClose\<close> and \<open>onError\<close> below (\<^verbatim>\<open>open\<close> only logs).
\<close>

definition connect :: "nat \<Rightarrow> world \<Rightarrow> nat \<times> world" where
  "connect c w =
     (let k = fresh w in
      (k, emit (NewSocket k)
            (upd c (\<lambda>this. this\<lparr>ws := Some k\<rparr>)
               (w\<lparr>sockets := (sockets w)(k := \<lparr>readyState = CONNECTING, owner = c\<rparr>),
                  promises := (promises w)(k := Pending),
                  fresh := Suc k\<rparr>))))"

definition statusUpdated :: "jsval \<Rightarrow> jsval" where
  "statusUpdated activity = JObj [(''type'', JStr ''status_updated''), (''activity'', activity)]"

text \<open>
  \<^verbatim>\<open>updatePresence(activityData)\<close>. The result is the exception thrown, if any, and the
  state reached: the assignment to \<^verbatim>\<open>currentActivity\<close> comes before anything can throw.
\<close>

definition updatePresence :: "nat \<Rightarrow> jsval \<Rightarrow> world \<Rightarrow> error option \<times> world" where
  "updatePresence c activityData w =
     (let w1 = upd c (\<lambda>this. this\<lparr>currentActivity := activityData\<rparr>) w in
      case ws (heap w1 c) of
        None \<Rightarrow> (None, w1)
      | Some k \<Rightarrow>
          if readyState (sockets w1 k) \<noteq> OPEN then (None, w1)
          else (case compose (parseInt w1) activityData of
                  Inl e \<Rightarrow> (Some e, w1)
                | Inr frame \<Rightarrow>
                    (None, notifyClient (sessionId (heap w1 c))
                             (statusUpdated (currentActivity (heap w1 c)))
                             (ws_send k frame w1))))"

text \<open>
  The frame of the keep-alive timer (\<^verbatim>\<open>server.js\<close> only), built from
  \<^verbatim>\<open>this.currentActivity\<close>; \<^verbatim>\<open>parseInt\<close> is called only when the name is truthy.
\<close>

definition keepAliveFrame :: "builtin \<Rightarrow> jsval \<Rightarrow> error + jsval" where
  "keepAliveFrame P a =
     (if truthy a \<and> truthy (field a ''name'') then
        (case P (field a ''type'') of
           Inl e \<Rightarrow> Inl e
         | Inr t \<Rightarrow>
             Inr (presenceUpdate
                    (JObj [(''name'', field a ''name''),
                           (''type'', t),
                           (''details'', field a ''details''),
                           (''state'', field a ''state''),
                           (''assets'',
                              (if truthy (field a ''imageUrl'') then
                                 JObj [(''large_image'', field a ''imageUrl''),
                                       (''large_text'', field a ''imageText'')]
                               else JObj []))])))
      else Inr (presenceUpdate JNull))"

definition keepAliveTick :: "nat \<Rightarrow> world \<Rightarrow> error option \<times> world" where
  "keepAliveTick c w =
     (case ws (heap w c) of
        None \<Rightarrow> (None, w)
      | Some k \<Rightarrow>
          if readyState (sockets w k) = OPEN then
            (case keepAliveFrame (parseInt w) (currentActivity (heap w c)) of
               Inl e \<Rightarrow> (Some e, w)
             | Inr frame \<Rightarrow> (None, ws_send k frame w))
          else (None, w))"

definition startKeepAlive :: "nat \<Rightarrow> world \<Rightarrow> world" where
  "startKeepAlive c w =
     (let w1 = (case keepAliveTask (heap w c) of Some h \<Rightarrow> clearInterval h w | None \<Rightarrow> w);
          (h, w2) = setInterval (KeepAliveTimer c) (JNum 60000) w1
      in upd c (\<lambda>this. this\<lparr>keepAliveTask := Some h\<rparr>) w2)"

text \<open>
  The callback of the heartbeat timer. \<^verbatim>\<open>this.ws.close()\<close> would throw on a connection
  that has no socket.
\<close>

definition heartbeatTick :: "nat \<Rightarrow> world \<Rightarrow> error option \<times> world" where
  "heartbeatTick c w =
     (if \<not> heartbeatAcked (heap w c) then
        (case ws (heap w c) of
           None \<Rightarrow> (Some TypeError, w)
         | Some k \<Rightarrow> (None, ws_close k w))
      else
        (case ws (heap w c) of
           None \<Rightarrow> (None, w)
         | Some k \<Rightarrow>
             if readyState (sockets w k) = OPEN then
               (let w1 = upd c (\<lambda>this. this\<lparr>heartbeatAcked := False\<rparr>) w
                in (None, ws_send k (JObj [(''op'', JNum 1), (''d'', lastSequence (heap w1 c))]) w1))
             else (None, w)))"

definition identify :: "jsval \<Rightarrow> jsval" where
  "identify tok =
     JObj [(''op'', JNum 2),
           (''d'', JObj [(''token'', tok),
                         (''properties'', JObj [(''os'', JStr ''Windows''),
                                                (''browser'', JStr ''Chrome''),
                                                (''device'', JStr [])])])]"

text \<open>
  \<^verbatim>\<open>handleMessage(payload, resolve, reject)\<close> on connection \<open>c\<close>; \<open>p\<close> is the promise whose
  \<^verbatim>\<open>resolve\<close> is passed (always a function, so \<^verbatim>\<open>if (resolve)\<close> holds). Destructuring a
  nullish payload throws, and so does \<^verbatim>\<open>d.heartbeat_interval\<close> on a nullish \<open>d\<close>.
\<close>

definition handleMessage :: "nat \<Rightarrow> nat \<Rightarrow> jsval \<Rightarrow> world \<Rightarrow> error option \<times> world" where
  "handleMessage c p payload w =
     (if nullish payload then (Some TypeError, w)
      else
        (let op = field payload ''op'';
             d = field payload ''d'';
             s = field payload ''s'';
             t = field payload ''t'';
             w1 = (if truthy s then upd c (\<lambda>this. this\<lparr>lastSequence := s\<rparr>) w else w)
         in
           if op = JNum 10 then
             (let w2 = upd c (\<lambda>this. this\<lparr>heartbeatAcked := True\<rparr>) w1 in
              if nullish d then (Some TypeError, w2)
              else
                (let heartbeatInterval = field d ''heartbeat_interval'';
                     (h, w3) = setInterval (HeartbeatTimer c) heartbeatInterval w2;
                     w4 = upd c (\<lambda>this. this\<lparr>heartbeatTask := Some h\<rparr>) w3
                 in (case ws (heap w4 c) of
                       None \<Rightarrow> (Some TypeError, w4)
                     | Some k \<Rightarrow> (None, ws_send k (identify (token (heap w4 c))) w4))))
           else if op = JNum 11 then
             (None, upd c (\<lambda>this. this\<lparr>heartbeatAcked := True\<rparr>) w1)
           else if op = JNum 0 then
             (if t = JStr ''READY'' then
                (let w2 = notifyClient (sessionId (heap w1 c)) discord_ready w1;
                     w3 = (if variant w2 = WithHub then startKeepAlive c w2 else w2);
                     w4 = resolve p w3
                 in if truthy (currentActivity (heap w4 c))
                    then updatePresence c (currentActivity (heap w4 c)) w4
                    else (None, w4))
              else (None, w1))
           else if op = JNum 7 then
             (case ws (heap w1 c) of
                None \<Rightarrow> (Some TypeError, w1)
              | Some k \<Rightarrow> (None, ws_close k w1))
           else (None, w1)))"

definition cleanup :: "nat \<Rightarrow> world \<Rightarrow> world" where
  "cleanup c w =
     (let w1 = (case heartbeatTask (heap w c) of
                  Some h \<Rightarrow> upd c (\<lambda>this. this\<lparr>heartbeatTask := None\<rparr>) (clearInterval h w)
                | None \<Rightarrow> w)
      in (case keepAliveTask (heap w1 c) of
            Some h \<Rightarrow> upd c (\<lambda>this. this\<lparr>keepAliveTask := None\<rparr>) (clearInterval h w1)
          | None \<Rightarrow> w1))"

definition disconnect :: "nat \<Rightarrow> world \<Rightarrow> world" where
  "disconnect c w =
     (let w1 = upd c (\<lambda>this. this\<lparr>shouldReconnect := False, currentActivity := JNull\<rparr>) w;
          w2 = (case ws (heap w1 c) of Some k \<Rightarrow> ws_close k w1 | None \<Rightarrow> w1);
          w3 = cleanup c w2
      in notifyClient (sessionId (heap w3 c)) session_ended w3)"

text \<open>The handlers \<^verbatim>\<open>connect()\<close> installs on socket \<open>k\<close>.\<close>

definition onMessage :: "nat \<Rightarrow> jsval \<Rightarrow> world \<Rightarrow> error option \<times> world" where
  "onMessage k payload w = handleMessage (owner (sockets w k)) k payload w"

definition onClose :: "nat \<Rightarrow> world \<Rightarrow> world" where
  "onClose k w =
     (let c = owner (sockets w k);
          w1 = cleanup c w;
          w2 = notifyClient (sessionId (heap w1 c)) discord_disconnected w1
      in if shouldReconnect (heap w2 c) then setTimeout c 5000 w2 else w2)"

definition onError :: "nat \<Rightarrow> jsval \<Rightarrow> world \<Rightarrow> world" where
  "onError k msg w = reject k msg w"

section \<open>The request layer\<close>

text \<open>
  \<^verbatim>\<open>POST /api/connect\<close> up to its \<^verbatim>\<open>await\<close>. \<open>sid\<close> is the identifier that
  \<^verbatim>\<open>Math.random().toString(36).substring(7)\<close> produced for this request.
\<close>

definition apiConnect :: "jsval \<Rightarrow> string \<Rightarrow> world \<Rightarrow> world" where
  "apiConnect body sid w =
     (let tok = field body ''token'' in
      if \<not> truthy tok then respond 400 (JObj [(''error'', JStr ''Token is required'')]) w
      else
        (let c = fresh w;
             w1 = w\<lparr>heap := (heap w)(c := newDiscordConnection tok sid), fresh := Suc c\<rparr>;
             (p, w2) = connect c w1
         in w2\<lparr>awaiting := (awaiting w2)(p \<mapsto> (sid, c))\<rparr>))"

text \<open>
  The rest of \<^verbatim>\<open>POST /api/connect\<close>, for the request that awaits promise \<open>p\<close>. It runs
  once \<open>p\<close> has settled; the registry is written only on the fulfilled branch.
\<close>

definition resume :: "nat \<Rightarrow> world \<Rightarrow> world" where
  "resume p w =
     (case awaiting w p of
        None \<Rightarrow> w
      | Some (sid, c) \<Rightarrow>
          (case promises w p of
             Pending \<Rightarrow> w
           | Fulfilled \<Rightarrow>
               respond 200 (JObj [(''success'', JBool True), (''sessionId'', JStr sid),
                                  (''message'', JStr ''Connected to Discord Gateway'')])
                 (w\<lparr>activeConnections := (activeConnections w)(JStr sid \<mapsto> c),
                    awaiting := (awaiting w)(p := None)\<rparr>)
           | Rejected msg \<Rightarrow>
               respond 500 (JObj [(''error'', JStr ''Failed to connect to Discord''),
                                  (''message'', msg)])
                 (w\<lparr>awaiting := (awaiting w)(p := None)\<rparr>)))"

text \<open>The text of an exception's \<^verbatim>\<open>message\<close> depends on the engine; its kind stands for it.\<close>

definition errorMessage :: "error \<Rightarrow> jsval" where
  "errorMessage e = (case e of TypeError \<Rightarrow> JStr ''TypeError'')"

definition apiUpdateStatus :: "jsval \<Rightarrow> world \<Rightarrow> world" where
  "apiUpdateStatus body w =
     (let sid = field body ''sessionId'';
          activity = field body ''activity''
      in if \<not> truthy sid then respond 400 (JObj [(''error'', JStr ''Session ID is required'')]) w
         else (case activeConnections w sid of
                 None \<Rightarrow> respond 404 (JObj [(''error'', JStr ''Session not found'')]) w
               | Some c \<Rightarrow>
                   (case updatePresence c activity w of
                      (None, w1) \<Rightarrow>
                        respond 200 (JObj [(''success'', JBool True),
                                           (''message'', JStr ''Status updated successfully'')]) w1
                    | (Some e, w1) \<Rightarrow>
                        respond 500 (JObj [(''error'', JStr ''Failed to update status''),
                                           (''message'', errorMessage e)]) w1)))"

definition apiDisconnect :: "jsval \<Rightarrow> world \<Rightarrow> world" where
  "apiDisconnect body w =
     (let sid = field body ''sessionId''
      in if \<not> truthy sid then respond 400 (JObj [(''error'', JStr ''Session ID is required'')]) w
         else (case activeConnections w sid of
                 None \<Rightarrow> respond 404 (JObj [(''error'', JStr ''Session not found'')]) w
               | Some c \<Rightarrow>
                   (let w1 = disconnect c w;
                        w2 = w1\<lparr>activeConnections := (activeConnections w1)(sid := None)\<rparr>
                    in respond 200 (JObj [(''success'', JBool True),
                                          (''message'', JStr ''Disconnected successfully'')]) w2)))"

text \<open>\<^verbatim>\<open>connection.ws && connection.ws.readyState === WebSocket.OPEN\<close>, as a value.\<close>

definition connected :: "nat \<Rightarrow> world \<Rightarrow> jsval" where
  "connected c w =
     (case ws (heap w c) of
        None \<Rightarrow> JNull
      | Some k \<Rightarrow> JBool (readyState (sockets w k) = OPEN))"

text \<open>\<^verbatim>\<open>GET /api/status/:sessionId\<close>; the route parameter is a string.\<close>

definition apiStatus :: "string \<Rightarrow> world \<Rightarrow> world" where
  "apiStatus sid w =
     (case activeConnections w (JStr sid) of
        None \<Rightarrow> respond 200 (JObj [(''connected'', JBool False)]) w
      | Some c \<Rightarrow>
          respond 200 (JObj [(''connected'', connected c w),
                             (''currentActivity'', currentActivity (heap w c))]) w)"

subsection \<open>The client socket server (\<^verbatim>\<open>server.js\<close> only)\<close>

definition clientConnect :: "world \<Rightarrow> world" where
  "clientConnect w =
     emit (ClientSend (fresh w) hello)
       (w\<lparr>clients := (clients w)(fresh w := \<lparr>clientState = OPEN, clientSessionId = JNull\<rparr>),
          fresh := Suc (fresh w)\<rparr>)"

text \<open>The handler's \<^verbatim>\<open>try\<close> swallows the exception of reading \<^verbatim>\<open>data.type\<close> on a nullish value.\<close>

definition clientMessage :: "nat \<Rightarrow> jsval \<Rightarrow> world \<Rightarrow> world" where
  "clientMessage cw data w =
     (if nullish data then w
      else if field data ''type'' = JStr ''register'' then
        (let sid = field data ''sessionId'';
             w1 = w\<lparr>clients := (clients w)(cw := (clients w cw)\<lparr>clientSessionId := sid\<rparr>),
                    clientWebSockets := (clientWebSockets w)(sid \<mapsto> cw)\<rparr>
         in (case activeConnections w1 sid of
               Some c \<Rightarrow>
                 emit (ClientSend cw (JObj [(''type'', JStr ''status''),
                                            (''connected'', connected c w1),
                                            (''currentActivity'', currentActivity (heap w1 c))])) w1
             | None \<Rightarrow> w1))
      else w)"

definition clientClose :: "nat \<Rightarrow> world \<Rightarrow> world" where
  "clientClose cw w =
     (let w1 = w\<lparr>clients := (clients w)(cw := (clients w cw)\<lparr>clientState := CLOSED\<rparr>)\<rparr>;
          sid = clientSessionId (clients w1 cw)
      in if truthy sid then w1\<lparr>clientWebSockets := (clientWebSockets w1)(sid := None)\<rparr> else w1)"

section \<open>Events\<close>

text \<open>
  One event is one callback of the event loop: a request, a socket event, a timer, or
  the continuation of a suspended request. The socket library raises \<^verbatim>\<open>open\<close> on a
  connecting socket, \<^verbatim>\<open>message\<close> on an open or closing one, \<^verbatim>\<open>error\<close> and \<^verbatim>\<open>close\<close> on
  one that is not yet closed, and \<^verbatim>\<open>close\<close> leaves it \<open>CLOSED\<close>; a cleared interval and a
  fired timeout never fire again. The continuation of \<^verbatim>\<open>await\<close> is a job of its own: it
  runs after the handler that settled the promise, and after the other handlers the
  library calls in the same turn, has returned.
\<close>

datatype event =
    ApiConnect jsval string
  | ApiUpdateStatus jsval
  | ApiDisconnect jsval
  | ApiStatus string
  | WsOpen nat
  | WsMessage nat jsval
  | WsError nat jsval
  | WsClose nat
  | Continuation nat
  | IntervalFires nat
  | TimeoutFires nat
  | ClientConnect
  | ClientMessage nat jsval
  | ClientClose nat

text \<open>An exception that leaves an event handler stops the process.\<close>

definition uncaught :: "error option \<times> world \<Rightarrow> world" where
  "uncaught r = (case r of (None, w) \<Rightarrow> w | (Some e, w) \<Rightarrow> w\<lparr>crashed := True\<rparr>)"

definition step :: "event \<Rightarrow> world \<Rightarrow> world" where
  "step e w =
     (if crashed w then w
      else (case e of
              ApiConnect body sid \<Rightarrow> apiConnect body sid w
            | ApiUpdateStatus body \<Rightarrow> apiUpdateStatus body w
            | ApiDisconnect body \<Rightarrow> apiDisconnect body w
            | ApiStatus sid \<Rightarrow> apiStatus sid w
            | WsOpen k \<Rightarrow>
                (if readyState (sockets w k) = CONNECTING then setState k OPEN w else w)
            | WsMessage k payload \<Rightarrow>
                (if readyState (sockets w k) = OPEN \<or> readyState (sockets w k) = CLOSING
                 then uncaught (onMessage k payload w) else w)
            | WsError k msg \<Rightarrow>
                (if readyState (sockets w k) \<noteq> CLOSED then onError k msg w else w)
            | WsClose k \<Rightarrow>
                (if readyState (sockets w k) \<noteq> CLOSED then onClose k (setState k CLOSED w) else w)
            | Continuation p \<Rightarrow> resume p w
            | IntervalFires h \<Rightarrow>
                (case intervals w h of
                   None \<Rightarrow> w
                 | Some (HeartbeatTimer c) \<Rightarrow> uncaught (heartbeatTick c w)
                 | Some (KeepAliveTimer c) \<Rightarrow> uncaught (keepAliveTick c w))
            | TimeoutFires h \<Rightarrow>
                (case timeouts w h of
                   None \<Rightarrow> w
                 | Some c \<Rightarrow> snd (connect c (w\<lparr>timeouts := (timeouts w)(h := None)\<rparr>)))
            | ClientConnect \<Rightarrow> (if variant w = WithHub then clientConnect w else w)
            | ClientMessage cw data \<Rightarrow>
                (if variant w = WithHub \<and> clientState (clients w cw) = OPEN
                 then clientMessage cw data w else w)
            | ClientClose cw \<Rightarrow>
                (if variant w = WithHub \<and> clientState (clients w cw) \<noteq> CLOSED
                 then clientClose cw w else w)))"

fun run :: "event list \<Rightarrow> world \<Rightarrow> world" where
  "run [] w = w"
| "run (e # es) w = run es (step e w)"

text \<open>The explicit disconnect request, \<^verbatim>\<open>POST /api/disconnect\<close>.\<close>

fun isDisconnectRequest :: "event \<Rightarrow> bool" where
  "isDisconnectRequest (ApiDisconnect body) = True"
| "isDisconnectRequest e = False"

section \<open>Observations\<close>

text \<open>The frames passed to \<^verbatim>\<open>ws.send\<close> on gateway sockets, in order, with their socket.\<close>

fun sentFrames :: "action list \<Rightarrow> (nat \<times> jsval) list" where
  "sentFrames [] = []"
| "sentFrames (Send k v # as) = (k, v) # sentFrames as"
| "sentFrames (a # as) = sentFrames as"

text \<open>The reconnects scheduled: the connection and the delay of every \<^verbatim>\<open>setTimeout\<close>.\<close>

fun reconnects :: "action list \<Rightarrow> (nat \<times> nat) list" where
  "reconnects [] = []"
| "reconnects (SetTimeout h c ms # as) = (c, ms) # reconnects as"
| "reconnects (a # as) = reconnects as"

text \<open>The notifications delivered to client sockets.\<close>

fun notifications :: "action list \<Rightarrow> (nat \<times> jsval) list" where
  "notifications [] = []"
| "notifications (ClientSend cw v # as) = (cw, v) # notifications as"
| "notifications (a # as) = notifications as"

text \<open>
  A descriptor as the request layer's clients send it: a JSON object whose artwork
  reference \<open>imageUrl\<close>, when there is one, is a string.
\<close>

definition isDescriptor :: "jsval \<Rightarrow> bool" where
  "isDescriptor d =
     (case d of
        JObj kvs \<Rightarrow>
          (case field d ''imageUrl'' of
             JStr s \<Rightarrow> True
           | JUndefined \<Rightarrow> True
           | JNull \<Rightarrow> True
           | _ \<Rightarrow> False)
      | _ \<Rightarrow> False)"

section \<open>Scenarios\<close>

text \<open>
  The scenarios fix the engine's \<^verbatim>\<open>parseInt\<close> where they call it: on the type code
  \<^verbatim>\<open>"2"\<close> of their descriptors it returns 2. They call it on nothing else, and the
  function is \<^verbatim>\<open>NaN\<close> there.
\<close>

definition scenarioParseInt :: builtin where
  "scenarioParseInt v = (if v = JStr ''2'' then Inr (JNum 2) else Inr JNaN)"

definition helloFrame :: jsval where
  "helloFrame = JObj [(''op'', JNum 10), (''d'', JObj [(''heartbeat_interval'', JNum 30000)])]"

definition readyFrame :: "int \<Rightarrow> jsval" where
  "readyFrame n = JObj [(''op'', JNum 0), (''t'', JStr ''READY''), (''s'', JNum n)]"

definition dispatchFrame :: "int \<Rightarrow> jsval" where
  "dispatchFrame n = JObj [(''op'', JNum 0), (''t'', JStr ''MESSAGE_CREATE''), (''s'', JNum n)]"

text \<open>
  A session is requested and goes through the handshake: the connection is object 0,
  its socket 1, its heartbeat timer 2 (and, with the hub, its keep-alive timer 3). After
  \<^verbatim>\<open>READY\<close> the request continues and stores the session.
\<close>

definition handshake_trace :: "event list" where
  "handshake_trace =
     [ApiConnect (JObj [(''token'', JStr ''tok'')]) ''abc'', WsOpen 1, WsMessage 1 helloFrame]"

definition ready_trace :: "event list" where
  "ready_trace = handshake_trace @ [WsMessage 1 (readyFrame 1), Continuation 1]"

text \<open>Two descriptors, without and with an artwork reference.\<close>

definition songA :: jsval where
  "songA = JObj [(''name'', JStr ''Song A''), (''type'', JStr ''2''), (''state'', JStr ''by Artist'')]"

definition songB :: jsval where
  "songB =
     JObj [(''name'', JStr ''Song B''), (''type'', JStr ''2''), (''details'', JStr ''Album''),
           (''imageUrl'', JStr ''spotify:image:abc123''), (''imageText'', JStr ''Cover'')]"

text \<open>
  The ready session receives a dispatch with sequence 2, then its socket drops; the
  reconnect timer 3 fires, and the new socket 4 opens and receives its hello.
\<close>

definition reconnect_trace :: "event list" where
  "reconnect_trace =
     ready_trace @
     [WsMessage 1 (dispatchFrame 2), WsClose 1, TimeoutFires 3, WsOpen 4, WsMessage 4 helloFrame]"

text \<open>
  The worlds of the scenarios: the session is ready; its socket has dropped; a
  descriptor is stored while the socket is down; the reconnect timer has fired and the
  new socket 4 has opened and received its hello (heartbeat timer 5).
\<close>

definition readyWorld :: world where
  "readyWorld = run ready_trace (init Plain scenarioParseInt)"

definition droppedWorld :: world where
  "droppedWorld = step (WsClose 1) readyWorld"

definition storedWorld :: world where
  "storedWorld =
     step (ApiUpdateStatus (JObj [(''sessionId'', JStr ''abc''), (''activity'', songA)])) droppedWorld"

definition reopenedWorld :: world where
  "reopenedWorld = run [TimeoutFires 3, WsOpen 4, WsMessage 4 helloFrame] storedWorld"

text \<open>
  Further worlds: the ready session after one heartbeat tick (a heartbeat is out and not
  yet acknowledged); after a reconnect request of the server (opcode 7), its socket
  closing; after \<open>reconnect_trace\<close>; after an update request with \<open>songA\<close>.
\<close>

definition unackedWorld :: world where
  "unackedWorld = step (IntervalFires 2) readyWorld"

definition closingWorld :: world where
  "closingWorld = step (WsMessage 1 (JObj [(''op'', JNum 7)])) readyWorld"

definition reconnectedWorld :: world where
  "reconnectedWorld = run reconnect_trace (init Plain scenarioParseInt)"

definition playingWorld :: world where
  "playingWorld =
     step (ApiUpdateStatus (JObj [(''sessionId'', JStr ''abc''), (''activity'', songA)])) readyWorld"

text \<open>
  The socket of the ready session drops and a reconnect is scheduled (timer 3); the
  session is then disconnected through the request layer; the timer fires all the same,
  socket 4 opens, receives its hello (heartbeat timer 5), and one heartbeat tick passes.
\<close>

definition orphanWorld :: world where
  "orphanWorld =
     run [ApiDisconnect (JObj [(''sessionId'', JStr ''abc'')]), TimeoutFires 3, WsOpen 4,
          WsMessage 4 helloFrame, IntervalFires 5] droppedWorld"

text \<open>
  Creating a session. The request is suspended and its socket 1 is connecting; then
  either that socket fails (\<^verbatim>\<open>error\<close>, then \<^verbatim>\<open>close\<close>, in one turn), or the handshake
  reaches \<^verbatim>\<open>READY\<close> and the promise is fulfilled.
\<close>

definition connectingWorld :: world where
  "connectingWorld =
     run [ApiConnect (JObj [(''token'', JStr ''tok'')]) ''abc''] (init Plain scenarioParseInt)"

definition refusedWorld :: world where
  "refusedWorld = run [WsError 1 (JStr ''ECONNREFUSED''), WsClose 1] connectingWorld"

definition fulfilledWorld :: world where
  "fulfilledWorld =
     run (handshake_trace @ [WsMessage 1 (readyFrame 1)]) (init Plain scenarioParseInt)"

text \<open>
  The first socket of the request has sent identify (\<open>identifiedWorld\<close>). It is then
  closed by the server, without an \<^verbatim>\<open>error\<close> event and before \<^verbatim>\<open>READY\<close>; the close handler
  schedules the retry, timer 3 (\<open>closedEarlyWorld\<close>). The retry's socket 4 then fails
  before its handshake.
\<close>

definition identifiedWorld :: world where
  "identifiedWorld = run handshake_trace (init Plain scenarioParseInt)"

definition closedEarlyWorld :: world where
  "closedEarlyWorld = step (WsClose 1) identifiedWorld"

definition retry_trace :: "event list" where
  "retry_trace =
     handshake_trace @
     [WsClose 1, TimeoutFires 3, WsError 4 (JStr ''ECONNREFUSED''), WsClose 4, Continuation 4]"

definition retryWorld :: world where
  "retryWorld = run retry_trace (init Plain scenarioParseInt)"

text \<open>
  With the hub: the session is ready (keep-alive timer 3) and a browser socket 4 has
  registered for it.
\<close>

definition hubWorld :: world where
  "hubWorld =
     run (ready_trace @
          [ClientConnect,
           ClientMessage 4 (JObj [(''type'', JStr ''register''), (''sessionId'', JStr ''abc'')])])
       (init WithHub scenarioParseInt)"

section \<open>Basic facts\<close>

lemmas model_defs =
  init_def step_def apiConnect_def connect_def emit_def upd_def field_def newDiscordConnection_def
  setState_def uncaught_def onMessage_def handleMessage_def nullish_def
  setInterval_def ws_send_def resolve_def resume_def respond_def notifyClient_def onClose_def
  cleanup_def clearInterval_def setTimeout_def updatePresence_def ws_close_def heartbeatTick_def
  onError_def reject_def disconnect_def apiDisconnect_def apiStatus_def apiUpdateStatus_def
  connected_def startKeepAlive_def keepAliveTick_def clientConnect_def clientMessage_def
  clientClose_def

lemmas scenario_defs =
  ready_trace_def reconnect_trace_def handshake_trace_def retry_trace_def helloFrame_def
  readyFrame_def dispatchFrame_def songA_def songB_def scenarioParseInt_def

lemmas eval_defs =
  readyWorld_def droppedWorld_def storedWorld_def reopenedWorld_def unackedWorld_def
  closingWorld_def reconnectedWorld_def orphanWorld_def hubWorld_def connectingWorld_def
  refusedWorld_def fulfilledWorld_def retryWorld_def playingWorld_def identifiedWorld_def
  closedEarlyWorld_def scenario_defs model_defs Let_def

lemma field_nullish [simp]: "nullish v \<Longrightarrow> field v k = JUndefined"
  by (auto simp: nullish_def field_def)

lemma sentFrames_append [simp]: "sentFrames (xs @ ys) = sentFrames xs @ sentFrames ys"
  by (induction xs rule: sentFrames.induct) auto

lemma reconnects_append [simp]: "reconnects (xs @ ys) = reconnects xs @ reconnects ys"
  by (induction xs rule: reconnects.induct) auto

lemma notifications_append [simp]: "notifications (xs @ ys) = notifications xs @ notifications ys"
  by (induction xs rule: notifications.induct) auto

subsection \<open>What each primitive changes\<close>

lemma emit_fields [simp]:
  "variant (emit a w) = variant w"
  "parseInt (emit a w) = parseInt w"
  "heap (emit a w) = heap w"
  "sockets (emit a w) = sockets w"
  "promises (emit a w) = promises w"
  "awaiting (emit a w) = awaiting w"
  "activeConnections (emit a w) = activeConnections w"
  "clientWebSockets (emit a w) = clientWebSockets w"
  "clients (emit a w) = clients w"
  "intervals (emit a w) = intervals w"
  "timeouts (emit a w) = timeouts w"
  "fresh (emit a w) = fresh w"
  "trace (emit a w) = trace w @ [a]"
  "crashed (emit a w) = crashed w"
  by (simp_all add: emit_def)

lemma upd_fields [simp]:
  "variant (upd c f w) = variant w"
  "parseInt (upd c f w) = parseInt w"
  "heap (upd c f w) = (heap w)(c := f (heap w c))"
  "sockets (upd c f w) = sockets w"
  "promises (upd c f w) = promises w"
  "awaiting (upd c f w) = awaiting w"
  "activeConnections (upd c f w) = activeConnections w"
  "clientWebSockets (upd c f w) = clientWebSockets w"
  "clients (upd c f w) = clients w"
  "intervals (upd c f w) = intervals w"
  "timeouts (upd c f w) = timeouts w"
  "fresh (upd c f w) = fresh w"
  "trace (upd c f w) = trace w"
  "crashed (upd c f w) = crashed w"
  by (simp_all add: upd_def)

lemma setState_fields [simp]:
  "variant (setState k st w) = variant w"
  "parseInt (setState k st w) = parseInt w"
  "heap (setState k st w) = heap w"
  "sockets (setState k st w) = (sockets w)(k := (sockets w k)\<lparr>readyState := st\<rparr>)"
  "promises (setState k st w) = promises w"
  "awaiting (setState k st w) = awaiting w"
  "activeConnections (setState k st w) = activeConnections w"
  "clientWebSockets (setState k st w) = clientWebSockets w"
  "clients (setState k st w) = clients w"
  "intervals (setState k st w) = intervals w"
  "timeouts (setState k st w) = timeouts w"
  "fresh (setState k st w) = fresh w"
  "trace (setState k st w) = trace w"
  "crashed (setState k st w) = crashed w"
  by (simp_all add: setState_def)

lemma ws_send_fields [simp]:
  "variant (ws_send k v w) = variant w"
  "parseInt (ws_send k v w) = parseInt w"
  "heap (ws_send k v w) = heap w"
  "sockets (ws_send k v w) = sockets w"
  "promises (ws_send k v w) = promises w"
  "awaiting (ws_send k v w) = awaiting w"
  "activeConnections (ws_send k v w) = activeConnections w"
  "clientWebSockets (ws_send k v w) = clientWebSockets w"
  "clients (ws_send k v w) = clients w"
  "intervals (ws_send k v w) = intervals w"
  "timeouts (ws_send k v w) = timeouts w"
  "fresh (ws_send k v w) = fresh w"
  "trace (ws_send k v w) = trace w @ [Send k v]"
  "crashed (ws_send k v w) = crashed w"
  by (simp_all add: ws_send_def)

lemma respond_fields [simp]:
  "variant (respond n v w) = variant w"
  "parseInt (respond n v w) = parseInt w"
  "heap (respond n v w) = heap w"
  "sockets (respond n v w) = sockets w"
  "promises (respond n v w) = promises w"
  "awaiting (respond n v w) = awaiting w"
  "activeConnections (respond n v w) = activeConnections w"
  "clientWebSockets (respond n v w) = clientWebSockets w"
  "clients (respond n v w) = clients w"
  "intervals (respond n v w) = intervals w"
  "timeouts (respond n v w) = timeouts w"
  "fresh (respond n v w) = fresh w"
  "trace (respond n v w) = trace w @ [Respond n v]"
  "crashed (respond n v w) = crashed w"
  by (simp_all add: respond_def)

lemma clearInterval_fields [simp]:
  "variant (clearInterval h w) = variant w"
  "parseInt (clearInterval h w) = parseInt w"
  "heap (clearInterval h w) = heap w"
  "sockets (clearInterval h w) = sockets w"
  "promises (clearInterval h w) = promises w"
  "awaiting (clearInterval h w) = awaiting w"
  "activeConnections (clearInterval h w) = activeConnections w"
  "clientWebSockets (clearInterval h w) = clientWebSockets w"
  "clients (clearInterval h w) = clients w"
  "intervals (clearInterval h w) = (intervals w)(h := None)"
  "timeouts (clearInterval h w) = timeouts w"
  "fresh (clearInterval h w) = fresh w"
  "trace (clearInterval h w) = trace w @ [ClearInterval h]"
  "crashed (clearInterval h w) = crashed w"
  by (simp_all add: clearInterval_def)

lemma setTimeout_fields [simp]:
  "variant (setTimeout c ms w) = variant w"
  "parseInt (setTimeout c ms w) = parseInt w"
  "heap (setTimeout c ms w) = heap w"
  "sockets (setTimeout c ms w) = sockets w"
  "promises (setTimeout c ms w) = promises w"
  "awaiting (setTimeout c ms w) = awaiting w"
  "activeConnections (setTimeout c ms w) = activeConnections w"
  "clientWebSockets (setTimeout c ms w) = clientWebSockets w"
  "clients (setTimeout c ms w) = clients w"
  "intervals (setTimeout c ms w) = intervals w"
  "timeouts (setTimeout c ms w) = (timeouts w)(fresh w \<mapsto> c)"
  "fresh (setTimeout c ms w) = Suc (fresh w)"
  "trace (setTimeout c ms w) = trace w @ [SetTimeout (fresh w) c ms]"
  "crashed (setTimeout c ms w) = crashed w"
  by (simp_all add: setTimeout_def)

lemma setInterval_fields [simp]:
  "fst (setInterval cb ms w) = fresh w"
  "variant (snd (setInterval cb ms w)) = variant w"
  "parseInt (snd (setInterval cb ms w)) = parseInt w"
  "heap (snd (setInterval cb ms w)) = heap w"
  "sockets (snd (setInterval cb ms w)) = sockets w"
  "promises (snd (setInterval cb ms w)) = promises w"
  "awaiting (snd (setInterval cb ms w)) = awaiting w"
  "activeConnections (snd (setInterval cb ms w)) = activeConnections w"
  "clientWebSockets (snd (setInterval cb ms w)) = clientWebSockets w"
  "clients (snd (setInterval cb ms w)) = clients w"
  "intervals (snd (setInterval cb ms w)) = (intervals w)(fresh w \<mapsto> cb)"
  "timeouts (snd (setInterval cb ms w)) = timeouts w"
  "fresh (snd (setInterval cb ms w)) = Suc (fresh w)"
  "trace (snd (setInterval cb ms w)) = trace w @ [SetInterval (fresh w) cb ms]"
  "crashed (snd (setInterval cb ms w)) = crashed w"
  by (simp_all add: setInterval_def)

lemma resolve_fields [simp]:
  "variant (resolve p w) = variant w"
  "parseInt (resolve p w) = parseInt w"
  "heap (resolve p w) = heap w"
  "sockets (resolve p w) = sockets w"
  "promises (resolve p w) = (if promises w p = Pending then (promises w)(p := Fulfilled) else promises w)"
  "awaiting (resolve p w) = awaiting w"
  "activeConnections (resolve p w) = activeConnections w"
  "clientWebSockets (resolve p w) = clientWebSockets w"
  "clients (resolve p w) = clients w"
  "intervals (resolve p w) = intervals w"
  "timeouts (resolve p w) = timeouts w"
  "fresh (resolve p w) = fresh w"
  "trace (resolve p w) = trace w"
  "crashed (resolve p w) = crashed w"
  by (simp_all add: resolve_def)

lemma reject_fields [simp]:
  "variant (reject p m w) = variant w"
  "parseInt (reject p m w) = parseInt w"
  "heap (reject p m w) = heap w"
  "sockets (reject p m w) = sockets w"
  "promises (reject p m w) = (if promises w p = Pending then (promises w)(p := Rejected m) else promises w)"
  "awaiting (reject p m w) = awaiting w"
  "activeConnections (reject p m w) = activeConnections w"
  "clientWebSockets (reject p m w) = clientWebSockets w"
  "clients (reject p m w) = clients w"
  "intervals (reject p m w) = intervals w"
  "timeouts (reject p m w) = timeouts w"
  "fresh (reject p m w) = fresh w"
  "trace (reject p m w) = trace w"
  "crashed (reject p m w) = crashed w"
  by (simp_all add: reject_def)

lemma ws_close_fields [simp]:
  "variant (ws_close k w) = variant w"
  "parseInt (ws_close k w) = parseInt w"
  "heap (ws_close k w) = heap w"
  "sockets (ws_close k w) = (if readyState (sockets w k) = OPEN \<or> readyState (sockets w k) = CONNECTING then (sockets w)(k := (sockets w k)\<lparr>readyState := CLOSING\<rparr>) else sockets w)"
  "promises (ws_close k w) = promises w"
  "awaiting (ws_close k w) = awaiting w"
  "activeConnections (ws_close k w) = activeConnections w"
  "clientWebSockets (ws_close k w) = clientWebSockets w"
  "clients (ws_close k w) = clients w"
  "intervals (ws_close k w) = intervals w"
  "timeouts (ws_close k w) = timeouts w"
  "fresh (ws_close k w) = fresh w"
  "trace (ws_close k w) = (if readyState (sockets w k) = OPEN \<or> readyState (sockets w k) = CONNECTING then trace w @ [Close k] else trace w)"
  "crashed (ws_close k w) = crashed w"
  by (simp_all add: ws_close_def)

lemma notifyClient_fields [simp]:
  "variant (notifyClient sid v w) = variant w"
  "parseInt (notifyClient sid v w) = parseInt w"
  "heap (notifyClient sid v w) = heap w"
  "sockets (notifyClient sid v w) = sockets w"
  "promises (notifyClient sid v w) = promises w"
  "awaiting (notifyClient sid v w) = awaiting w"
  "activeConnections (notifyClient sid v w) = activeConnections w"
  "clientWebSockets (notifyClient sid v w) = clientWebSockets w"
  "clients (notifyClient sid v w) = clients w"
  "intervals (notifyClient sid v w) = intervals w"
  "timeouts (notifyClient sid v w) = timeouts w"
  "fresh (notifyClient sid v w) = fresh w"
  "crashed (notifyClient sid v w) = crashed w"
  by (simp_all add: notifyClient_def split: option.splits)

lemma notifyClient_trace:
  "trace (notifyClient sid v w) =
     trace w @ (if variant w = WithHub
                then (case clientWebSockets w (JStr sid) of
                        None \<Rightarrow> []
                      | Some cw \<Rightarrow> (if clientState (clients w cw) = OPEN then [ClientSend cw v] else []))
                else [])"
  by (cases "variant w") (simp_all add: notifyClient_def emit_def split: option.splits)

lemma notifyClient_sentFrames [simp]:
  "sentFrames (trace (notifyClient sid v w)) = sentFrames (trace w)"
  by (simp add: notifyClient_trace split: option.splits)

lemma notifyClient_reconnects [simp]:
  "reconnects (trace (notifyClient sid v w)) = reconnects (trace w)"
  by (simp add: notifyClient_trace split: option.splits)

lemma notifyClient_Plain [simp]: "variant w = Plain \<Longrightarrow> notifyClient sid v w = w"
  by (simp add: notifyClient_def)

section \<open>Artwork normalisation (C6)\<close>

lemma split_nonempty: "split c s \<noteq> []"
  by (induction s) (auto split: list.splits)

lemma split_no_sep: "c \<notin> set s \<Longrightarrow> split c s = [s]"
  by (induction s) auto

lemma split_two: "c \<in> set s \<Longrightarrow> \<exists>a b bs. split c s = a # b # bs"
proof (induction s)
  case Nil
  then show ?case by simp
next
  case (Cons x s)
  show ?case
  proof (cases "x = c")
    case True
    then show ?thesis using split_nonempty[of c s] by (cases "split c s") auto
  next
    case False
    with Cons obtain a b bs where "split c s = a # b # bs" by auto
    with False show ?thesis by simp
  qed
qed

text \<open>After the last separator comes the last piece.\<close>

lemma split_pop_suffix: "c \<notin> set i \<Longrightarrow> split_pop c (p @ c # i) = i"
  unfolding split_pop_def
proof (induction p)
  case Nil
  then show ?case by (simp add: split_no_sep)
next
  case (Cons x p)
  obtain a b bs where ab: "split c (p @ c # i) = a # b # bs"
    using split_two[of c "p @ c # i"] by auto
  with Cons show ?case by auto
qed

lemma extract_cdn:
  "startsWith (p @ CHR ''/'' # i) ''https://i.scdn.co/image/'' \<Longrightarrow> CHR ''/'' \<notin> set i \<Longrightarrow>
   extractSpotifyImageId (JStr (p @ CHR ''/'' # i)) = Inr (JStr i)"
  by (simp add: extractSpotifyImageId_def split_pop_suffix)

lemma spotify_not_cdn: "startsWith s ''spotify:'' \<Longrightarrow> \<not> startsWith s ''https://i.scdn.co/image/''"
  by (cases s) (auto simp: startsWith_def)

lemma extract_ref:
  "startsWith (q @ CHR '':'' # j) ''spotify:'' \<Longrightarrow> CHR '':'' \<notin> set j \<Longrightarrow>
   extractSpotifyImageId (JStr (q @ CHR '':'' # j)) = Inr (JStr j)"
  using spotify_not_cdn[of "q @ CHR '':'' # j"]
  by (simp add: extractSpotifyImageId_def split_pop_suffix)

lemma extract_other:
  "\<not> startsWith s ''https://i.scdn.co/image/'' \<Longrightarrow> \<not> startsWith s ''spotify:'' \<Longrightarrow>
   extractSpotifyImageId (JStr s) = Inr JNull"
  by (simp add: extractSpotifyImageId_def)

text \<open>A string that holds a separator ends in a piece without one.\<close>

lemma last_piece: "c \<in> set s \<Longrightarrow> \<exists>p i. s = p @ c # i \<and> c \<notin> set i"
  using split_list_last[of c s] by blast

lemma startsWith_set: "startsWith s p \<Longrightarrow> set p \<subseteq> set s"
  by (metis startsWith_def set_take_subset)

lemma cdn_has_slash: "startsWith s ''https://i.scdn.co/image/'' \<Longrightarrow> CHR ''/'' \<in> set s"
proof -
  assume "startsWith s ''https://i.scdn.co/image/''"
  then have "set ''https://i.scdn.co/image/'' \<subseteq> set s" by (rule startsWith_set)
  moreover have "CHR ''/'' \<in> set ''https://i.scdn.co/image/''" by simp
  ultimately show ?thesis by (rule subsetD)
qed

lemma ref_has_colon: "startsWith s ''spotify:'' \<Longrightarrow> CHR '':'' \<in> set s"
proof -
  assume "startsWith s ''spotify:''"
  then have "set ''spotify:'' \<subseteq> set s" by (rule startsWith_set)
  moreover have "CHR '':'' \<in> set ''spotify:''" by simp
  ultimately show ?thesis by (rule subsetD)
qed

text \<open>
  Claim C6, amended. The two shapes the code recognises are the prefixes
  \<^verbatim>\<open>https://i.scdn.co/image/\<close> and \<^verbatim>\<open>spotify:\<close>. Every string with the first prefix
  has a last slash, and the identifier is the text after it; every string with the
  second has a last colon, and the identifier is the text after it; a string with
  neither prefix yields no identifier. The assets of the composed activity are empty
  when no artwork reference (\<open>imageUrl\<close>) was supplied. When one was supplied,
  \<open>large_image\<close> is \<^verbatim>\<open>spotify:\<close> followed by the identifier if normalisation gave a
  non-empty one, and \<open>large_text\<close> is the alt text if that is non-empty, whether or not
  an identifier was obtained. For a descriptor with a name, whose type code
  \<^verbatim>\<open>parseInt\<close> turns into \<open>t\<close>, the activity is the object of name, \<open>t\<close>, details,
  state and these assets.
\<close>

theorem artwork_normalisation:
  "(startsWith s ''https://i.scdn.co/image/'' \<longrightarrow> (\<exists>p i. s = p @ CHR ''/'' # i \<and> CHR ''/'' \<notin> set i))
   \<and> (startsWith (p @ CHR ''/'' # i) ''https://i.scdn.co/image/'' \<and> CHR ''/'' \<notin> set i \<longrightarrow>
        extractSpotifyImageId (JStr (p @ CHR ''/'' # i)) = Inr (JStr i))
   \<and> (startsWith s ''spotify:'' \<longrightarrow> (\<exists>q j. s = q @ CHR '':'' # j \<and> CHR '':'' \<notin> set j))
   \<and> (startsWith (q @ CHR '':'' # j) ''spotify:'' \<and> CHR '':'' \<notin> set j \<longrightarrow>
        extractSpotifyImageId (JStr (q @ CHR '':'' # j)) = Inr (JStr j))
   \<and> (\<not> startsWith s ''https://i.scdn.co/image/'' \<and> \<not> startsWith s ''spotify:'' \<longrightarrow>
        extractSpotifyImageId (JStr s) = Inr JNull)
   \<and> (\<not> truthy (field a ''imageUrl'') \<longrightarrow> buildAssets a = Inr [])
   \<and> (field b ''imageUrl'' = JStr u \<and> extractSpotifyImageId (JStr u) = Inr (JStr n) \<and> n \<noteq> [] \<longrightarrow>
        buildAssets b =
          Inr ((''large_image'', JStr (''spotify:'' @ n)) #
               (if truthy (field b ''imageText'') then [(''large_text'', field b ''imageText'')] else [])))
   \<and> (field b ''imageUrl'' = JStr u \<and> u \<noteq> [] \<and> extractSpotifyImageId (JStr u) = Inr v \<and> \<not> truthy v \<longrightarrow>
        buildAssets b =
          Inr (if truthy (field b ''imageText'') then [(''large_text'', field b ''imageText'')] else []))
   \<and> (\<not> nullish a \<and> truthy (field a ''name'') \<and> P (field a ''type'') = Inr t
       \<and> buildAssets a = Inr as \<longrightarrow>
        buildActivity P a =
          Inr (JObj [(''name'', field a ''name''), (''type'', t), (''details'', field a ''details''),
                     (''state'', field a ''state''), (''assets'', JObj as)]))"
proof (intro conjI impI)
  show "\<exists>p i. s = p @ CHR ''/'' # i \<and> CHR ''/'' \<notin> set i"
    if "startsWith s ''https://i.scdn.co/image/''"
    by (rule last_piece[OF cdn_has_slash[OF that]])
  show "extractSpotifyImageId (JStr (p @ CHR ''/'' # i)) = Inr (JStr i)"
    if "startsWith (p @ CHR ''/'' # i) ''https://i.scdn.co/image/'' \<and> CHR ''/'' \<notin> set i"
    by (rule extract_cdn[OF that[THEN conjunct1] that[THEN conjunct2]])
  show "\<exists>q j. s = q @ CHR '':'' # j \<and> CHR '':'' \<notin> set j"
    if "startsWith s ''spotify:''"
    by (rule last_piece[OF ref_has_colon[OF that]])
  show "extractSpotifyImageId (JStr (q @ CHR '':'' # j)) = Inr (JStr j)"
    if "startsWith (q @ CHR '':'' # j) ''spotify:'' \<and> CHR '':'' \<notin> set j"
    by (rule extract_ref[OF that[THEN conjunct1] that[THEN conjunct2]])
  show "extractSpotifyImageId (JStr s) = Inr JNull"
    if "\<not> startsWith s ''https://i.scdn.co/image/'' \<and> \<not> startsWith s ''spotify:''"
    using that by (simp add: extract_other)
  show "buildAssets a = Inr []" if "\<not> truthy (field a ''imageUrl'')"
    using that by (simp add: buildAssets_def)
  show "buildAssets b =
          Inr ((''large_image'', JStr (''spotify:'' @ n)) #
               (if truthy (field b ''imageText'') then [(''large_text'', field b ''imageText'')] else []))"
    if "field b ''imageUrl'' = JStr u \<and> extractSpotifyImageId (JStr u) = Inr (JStr n) \<and> n \<noteq> []"
  proof -
    from that have "u \<noteq> []" by (auto simp: extractSpotifyImageId_def)
    with that show ?thesis by (simp add: buildAssets_def spotifyRef_def)
  qed
  show "buildAssets b =
          Inr (if truthy (field b ''imageText'') then [(''large_text'', field b ''imageText'')] else [])"
    if "field b ''imageUrl'' = JStr u \<and> u \<noteq> [] \<and> extractSpotifyImageId (JStr u) = Inr v \<and> \<not> truthy v"
    using that by (simp add: buildAssets_def)
  show "buildActivity P a =
          Inr (JObj [(''name'', field a ''name''), (''type'', t), (''details'', field a ''details''),
                     (''state'', field a ''state''), (''assets'', JObj as)])"
    if "\<not> nullish a \<and> truthy (field a ''name'') \<and> P (field a ''type'') = Inr t
       \<and> buildAssets a = Inr as"
    using that by (simp add: buildActivity_def)
qed

text \<open>
  The theorem at one-piece and several-piece references of both shapes, at the
  unrelated string \<^verbatim>\<open>abc123\<close>, and at descriptors without and with an artwork reference.
\<close>

theorem artwork_normalisation_witness:
  "extractSpotifyImageId (JStr ''https://i.scdn.co/image/abc123'') = Inr (JStr ''abc123'')
   \<and> extractSpotifyImageId (JStr ''https://i.scdn.co/image/a/b'') = Inr (JStr ''b'')
   \<and> extractSpotifyImageId (JStr ''spotify:abc123'') = Inr (JStr ''abc123'')
   \<and> extractSpotifyImageId (JStr ''spotify:a:b:c'') = Inr (JStr ''c'')
   \<and> extractSpotifyImageId (JStr ''abc123'') = Inr JNull
   \<and> buildAssets songA = Inr []
   \<and> buildAssets songB = Inr [(''large_image'', JStr ''spotify:abc123''), (''large_text'', JStr ''Cover'')]
   \<and> buildAssets (JObj [(''name'', JStr ''Song A''), (''imageUrl'', JStr ''abc123''),
                         (''imageText'', JStr ''Song A'')])
        = Inr [(''large_text'', JStr ''Song A'')]
   \<and> buildActivity scenarioParseInt songB =
        Inr (JObj [(''name'', JStr ''Song B''), (''type'', JNum 2), (''details'', JStr ''Album''),
                   (''state'', JUndefined),
                   (''assets'', JObj [(''large_image'', JStr ''spotify:abc123''),
                                      (''large_text'', JStr ''Cover'')])])"
proof -
  let ?b' = "JObj [(''name'', JStr ''Song A''), (''imageUrl'', JStr ''abc123''),
                   (''imageText'', JStr ''Song A'')]"
  let ?as = "[(''large_image'', JStr ''spotify:abc123''), (''large_text'', JStr ''Cover'')]"
  note i1 = artwork_normalisation[of "''abc123''" "''https://i.scdn.co/image''" "''abc123''"
      "''spotify''" "''abc123''" songA songB "''spotify:image:abc123''" "''abc123''" JNull
      scenarioParseInt "JNum 2" "[]"]
  note i2 = artwork_normalisation[of "''abc123''" "''https://i.scdn.co/image/a''" "''b''"
      "''spotify:a:b''" "''c''" songB ?b' "''abc123''" "''abc123''" JNull
      scenarioParseInt "JNum 2" ?as]
  note i3 = artwork_normalisation[of "''abc123''" "''https://i.scdn.co/image''" "''abc123''"
      "''spotify:image''" "''abc123''" songA songB "''spotify:image:abc123''" "''abc123''" JNull
      scenarioParseInt "JNum 2" "[]"]
  have e1: "extractSpotifyImageId (JStr ''https://i.scdn.co/image/abc123'') = Inr (JStr ''abc123'')"
    using i1 by (simp add: startsWith_def)
  have e2: "extractSpotifyImageId (JStr ''https://i.scdn.co/image/a/b'') = Inr (JStr ''b'')"
    using i2 by (simp add: startsWith_def)
  have e3: "extractSpotifyImageId (JStr ''spotify:abc123'') = Inr (JStr ''abc123'')"
    using i1 by (simp add: startsWith_def)
  have e4: "extractSpotifyImageId (JStr ''spotify:a:b:c'') = Inr (JStr ''c'')"
    using i2 by (simp add: startsWith_def)
  have e5: "extractSpotifyImageId (JStr ''abc123'') = Inr JNull"
    using i1 by (simp add: startsWith_def)
  have e6: "extractSpotifyImageId (JStr ''spotify:image:abc123'') = Inr (JStr ''abc123'')"
    using i3 by (simp add: startsWith_def)
  have a: "buildAssets songA = Inr []"
    using i1 by (simp add: songA_def field_def)
  have b: "buildAssets songB = Inr ?as"
    using i1 e6 by (simp add: songB_def field_def)
  have b': "buildAssets ?b' = Inr [(''large_text'', JStr ''Song A'')]"
    using i2 e5 by (simp add: field_def)
  have c: "buildActivity scenarioParseInt songB =
        Inr (JObj [(''name'', JStr ''Song B''), (''type'', JNum 2), (''details'', JStr ''Album''),
                   (''state'', JUndefined), (''assets'', JObj ?as)])"
    using i2 b by (simp add: songB_def field_def nullish_def scenarioParseInt_def)
  from e1 e2 e3 e4 e5 a b b' c show ?thesis by simp
qed

text \<open>
  Claim C6 as stated fails. The spec's sample strings carry placeholder prefixes the
  code does not know, and an artwork reference of an unrelated shape still yields an
  artwork field: with reference \<^verbatim>\<open>foo\<close> and alt text \<^verbatim>\<open>bar\<close> no identifier is found, yet
  the assets hold \<open>large_text\<close>.
\<close>

theorem artwork_text_without_id:
  "extractSpotifyImageId (JStr ''https://cdn.example/image/abc123'') = Inr JNull
   \<and> extractSpotifyImageId (JStr ''proto:abc123'') = Inr JNull
   \<and> extractSpotifyImageId (JStr ''foo'') = Inr JNull
   \<and> buildAssets (JObj [(''name'', JStr ''x''), (''imageUrl'', JStr ''foo''), (''imageText'', JStr ''bar'')])
        = Inr [(''large_text'', JStr ''bar'')]"
  by (simp add: extractSpotifyImageId_def startsWith_def buildAssets_def field_def)

section \<open>Presence composition and updates (C2, C5)\<close>

text \<open>An empty or missing name clears the presence: the frame has no activity.\<close>

lemma compose_empty_name:
  "\<not> nullish a \<Longrightarrow> \<not> truthy (field a ''name'') \<Longrightarrow>
   compose P a = Inr (JObj [(''op'', JNum 3),
                            (''d'', JObj [(''since'', JNum 0), (''activities'', JArr []),
                                          (''status'', JStr ''online''), (''afk'', JBool False)])])"
  by (simp add: compose_def buildActivity_def presenceUpdate_def)

lemma isDescriptor_assets: "isDescriptor d \<Longrightarrow> \<exists>as. buildAssets d = Inr as"
  by (auto simp: isDescriptor_def buildAssets_def extractSpotifyImageId_def
      split: jsval.splits)

lemma isDescriptor_truthy: "isDescriptor d \<Longrightarrow> truthy d"
  by (auto simp: isDescriptor_def split: jsval.splits)

lemma isDescriptor_not_nullish: "isDescriptor d \<Longrightarrow> \<not> nullish d"
  by (auto simp: isDescriptor_def nullish_def split: jsval.splits)

text \<open>The frame composed from a descriptor, written out.\<close>

lemma compose_descriptor:
  assumes "isDescriptor d" "truthy (field d ''name'') \<longrightarrow> P (field d ''type'') = Inr t"
    "buildAssets d = Inr as"
  shows "compose P d =
           Inr (JObj [(''op'', JNum 3),
                      (''d'', JObj [(''since'', JNum 0),
                                    (''activities'',
                                       JArr (if truthy (field d ''name'') then
                                               [JObj [(''name'', field d ''name''), (''type'', t),
                                                      (''details'', field d ''details''),
                                                      (''state'', field d ''state''),
                                                      (''assets'', JObj as)]]
                                             else [])),
                                    (''status'', JStr ''online''), (''afk'', JBool False)])])"
  using assms isDescriptor_not_nullish[OF assms(1)]
  by (simp add: compose_def buildActivity_def presenceUpdate_def)

lemma updatePresence_heap [simp]:
  "heap (snd (updatePresence c d w)) = (heap w)(c := (heap w c)\<lparr>currentActivity := d\<rparr>)"
  by (simp add: updatePresence_def Let_def split: option.splits sum.splits)

lemma updatePresence_closed:
  "ws (heap w c) = None \<or> (\<exists>k. ws (heap w c) = Some k \<and> readyState (sockets w k) \<noteq> OPEN) \<Longrightarrow>
   updatePresence c d w = (None, upd c (\<lambda>this. this\<lparr>currentActivity := d\<rparr>) w)"
  by (auto simp: updatePresence_def Let_def)

text \<open>
  On an open socket the frame sent is a function of the descriptor (and of the engine's
  \<^verbatim>\<open>parseInt\<close>) alone: no other part of the state enters \<open>compose\<close>.
\<close>

lemma updatePresence_open:
  "ws (heap w c) = Some k \<Longrightarrow> readyState (sockets w k) = OPEN \<Longrightarrow>
   fst (updatePresence c d w) = (case compose (parseInt w) d of Inl e \<Rightarrow> Some e | Inr f \<Rightarrow> None)
   \<and> sentFrames (trace (snd (updatePresence c d w))) =
       sentFrames (trace w) @ (case compose (parseInt w) d of Inl e \<Rightarrow> [] | Inr f \<Rightarrow> [(k, f)])"
  by (simp add: updatePresence_def Let_def split: sum.splits)

lemma startKeepAlive_fields [simp]:
  "heap (startKeepAlive c w) = (heap w)(c := (heap w c)\<lparr>keepAliveTask := Some (fresh w)\<rparr>)"
  "sockets (startKeepAlive c w) = sockets w"
  "sentFrames (trace (startKeepAlive c w)) = sentFrames (trace w)"
  "variant (startKeepAlive c w) = variant w"
  "parseInt (startKeepAlive c w) = parseInt w"
  by (simp_all add: startKeepAlive_def Let_def split_beta split: option.splits)

lemma ready_sends_stored:
  assumes "isDescriptor d" "currentActivity (heap w c) = d" "ws (heap w c) = Some k"
    "readyState (sockets w k) = OPEN" "field payload ''op'' = JNum 0" "field payload ''t'' = JStr ''READY''"
    "compose (parseInt w) d = Inr frame"
  shows "sentFrames (trace (snd (handleMessage c p payload w))) = sentFrames (trace w) @ [(k, frame)]"
proof -
  have np: "\<not> nullish payload" using assms(5) by (auto simp: nullish_def field_def)
  let ?w1 = "(if truthy (field payload ''s'') then upd c (\<lambda>this. this\<lparr>lastSequence := field payload ''s''\<rparr>) w else w)"
  let ?w2 = "notifyClient (sessionId (heap ?w1 c)) discord_ready ?w1"
  let ?w3 = "(if variant ?w2 = WithHub then startKeepAlive c ?w2 else ?w2)"
  let ?w4 = "resolve p ?w3"
  have a: "currentActivity (heap ?w4 c) = d" "ws (heap ?w4 c) = Some k" "readyState (sockets ?w4 k) = OPEN"
     "sentFrames (trace ?w4) = sentFrames (trace w)" "parseInt ?w4 = parseInt w"
    using assms by auto
  have "handleMessage c p payload w = updatePresence c d ?w4"
    using np assms(1,5,6) a(1) isDescriptor_truthy[OF assms(1)]
    by (simp add: handleMessage_def Let_def)
  then show ?thesis using updatePresence_open[OF a(2,3), of d] a(4,5) assms(7) by simp
qed

text \<open>
  Claim C2. \<^verbatim>\<open>updatePresence\<close> stores its argument as the current activity in every
  case. If the connection has no socket or its socket is not open, nothing is sent (the
  trace is unchanged) and nothing is thrown. A descriptor that is the current activity
  when a \<^verbatim>\<open>READY\<close> dispatch arrives on the open socket is then sent on that socket, as
  the one frame of that handler; and if the socket is open when \<^verbatim>\<open>updatePresence\<close> is
  called, exactly one frame is sent on it. In both cases the frame is the presence
  update (opcode 3, since 0, status online, afk false) whose activities are the one
  activity made of the descriptor's name, parsed type, details, state and assets, or
  none if the name is empty. A descriptor is a JSON object whose \<open>imageUrl\<close> is a string
  when present and whose type code is one \<^verbatim>\<open>parseInt\<close> returns a value \<open>t\<close> for, as it
  does for every number and string (it throws only where converting an object to a
  string throws).
\<close>

theorem updatePresence_stores_then_sends:
  "currentActivity (heap (snd (updatePresence c d w)) c) = d
   \<and> (ws (heap w c) = None \<or> (\<exists>k. ws (heap w c) = Some k \<and> readyState (sockets w k) \<noteq> OPEN) \<longrightarrow>
        fst (updatePresence c d w) = None \<and> trace (snd (updatePresence c d w)) = trace w)
   \<and> (isDescriptor d \<and> currentActivity (heap w' c) = d \<and> ws (heap w' c) = Some k'
        \<and> readyState (sockets w' k') = OPEN
        \<and> (truthy (field d ''name'') \<longrightarrow> parseInt w' (field d ''type'') = Inr t)
        \<and> field payload ''op'' = JNum 0 \<and> field payload ''t'' = JStr ''READY'' \<longrightarrow>
        (\<exists>as. buildAssets d = Inr as
           \<and> sentFrames (trace (snd (handleMessage c p payload w'))) =
               sentFrames (trace w') @
               [(k', JObj [(''op'', JNum 3),
                           (''d'', JObj [(''since'', JNum 0),
                                         (''activities'',
                                            JArr (if truthy (field d ''name'') then
                                                    [JObj [(''name'', field d ''name''), (''type'', t),
                                                           (''details'', field d ''details''),
                                                           (''state'', field d ''state''),
                                                           (''assets'', JObj as)]]
                                                  else [])),
                                         (''status'', JStr ''online''), (''afk'', JBool False)])])]))
   \<and> (isDescriptor d \<and> ws (heap w c) = Some k \<and> readyState (sockets w k) = OPEN
        \<and> (truthy (field d ''name'') \<longrightarrow> parseInt w (field d ''type'') = Inr t) \<longrightarrow>
        (\<exists>as. buildAssets d = Inr as \<and> fst (updatePresence c d w) = None
           \<and> sentFrames (trace (snd (updatePresence c d w))) =
               sentFrames (trace w) @
               [(k, JObj [(''op'', JNum 3),
                          (''d'', JObj [(''since'', JNum 0),
                                        (''activities'',
                                           JArr (if truthy (field d ''name'') then
                                                   [JObj [(''name'', field d ''name''), (''type'', t),
                                                          (''details'', field d ''details''),
                                                          (''state'', field d ''state''),
                                                          (''assets'', JObj as)]]
                                                 else [])),
                                        (''status'', JStr ''online''), (''afk'', JBool False)])])]))"
proof (intro conjI impI)
  show "currentActivity (heap (snd (updatePresence c d w)) c) = d" by simp
  show "fst (updatePresence c d w) = None"
    if "ws (heap w c) = None \<or> (\<exists>k. ws (heap w c) = Some k \<and> readyState (sockets w k) \<noteq> OPEN)"
    using updatePresence_closed[OF that] by simp
  show "trace (snd (updatePresence c d w)) = trace w"
    if "ws (heap w c) = None \<or> (\<exists>k. ws (heap w c) = Some k \<and> readyState (sockets w k) \<noteq> OPEN)"
    using updatePresence_closed[OF that] by simp
next
  assume h: "isDescriptor d \<and> currentActivity (heap w' c) = d \<and> ws (heap w' c) = Some k'
        \<and> readyState (sockets w' k') = OPEN
        \<and> (truthy (field d ''name'') \<longrightarrow> parseInt w' (field d ''type'') = Inr t)
        \<and> field payload ''op'' = JNum 0 \<and> field payload ''t'' = JStr ''READY''"
  then obtain as where as: "buildAssets d = Inr as" using isDescriptor_assets by blast
  from h as have f: "compose (parseInt w') d = Inr (JObj [(''op'', JNum 3),
                           (''d'', JObj [(''since'', JNum 0),
                                         (''activities'',
                                            JArr (if truthy (field d ''name'') then
                                                    [JObj [(''name'', field d ''name''), (''type'', t),
                                                           (''details'', field d ''details''),
                                                           (''state'', field d ''state''),
                                                           (''assets'', JObj as)]]
                                                  else [])),
                                         (''status'', JStr ''online''), (''afk'', JBool False)])])"
    by (intro compose_descriptor) simp_all
  from h have g: "isDescriptor d" "currentActivity (heap w' c) = d" "ws (heap w' c) = Some k'"
    "readyState (sockets w' k') = OPEN" "field payload ''op'' = JNum 0" "field payload ''t'' = JStr ''READY''"
    by simp_all
  from ready_sends_stored[OF g f, of p] as
  show "\<exists>as. buildAssets d = Inr as
           \<and> sentFrames (trace (snd (handleMessage c p payload w'))) =
               sentFrames (trace w') @
               [(k', JObj [(''op'', JNum 3),
                           (''d'', JObj [(''since'', JNum 0),
                                         (''activities'',
                                            JArr (if truthy (field d ''name'') then
                                                    [JObj [(''name'', field d ''name''), (''type'', t),
                                                           (''details'', field d ''details''),
                                                           (''state'', field d ''state''),
                                                           (''assets'', JObj as)]]
                                                  else [])),
                                         (''status'', JStr ''online''), (''afk'', JBool False)])])]"
    by (intro exI[of _ as] conjI)
next
  assume h: "isDescriptor d \<and> ws (heap w c) = Some k \<and> readyState (sockets w k) = OPEN
        \<and> (truthy (field d ''name'') \<longrightarrow> parseInt w (field d ''type'') = Inr t)"
  then obtain as where as: "buildAssets d = Inr as" using isDescriptor_assets by blast
  from h as have f: "compose (parseInt w) d = Inr (JObj [(''op'', JNum 3),
                           (''d'', JObj [(''since'', JNum 0),
                                         (''activities'',
                                            JArr (if truthy (field d ''name'') then
                                                    [JObj [(''name'', field d ''name''), (''type'', t),
                                                           (''details'', field d ''details''),
                                                           (''state'', field d ''state''),
                                                           (''assets'', JObj as)]]
                                                  else [])),
                                         (''status'', JStr ''online''), (''afk'', JBool False)])])"
    by (intro compose_descriptor) simp_all
  from h have g: "ws (heap w c) = Some k" "readyState (sockets w k) = OPEN" by simp_all
  from updatePresence_open[OF g, of d] f as
  show "\<exists>as. buildAssets d = Inr as \<and> fst (updatePresence c d w) = None
           \<and> sentFrames (trace (snd (updatePresence c d w))) =
               sentFrames (trace w) @
               [(k, JObj [(''op'', JNum 3),
                          (''d'', JObj [(''since'', JNum 0),
                                        (''activities'',
                                           JArr (if truthy (field d ''name'') then
                                                   [JObj [(''name'', field d ''name''), (''type'', t),
                                                          (''details'', field d ''details''),
                                                          (''state'', field d ''state''),
                                                          (''assets'', JObj as)]]
                                                 else [])),
                                        (''status'', JStr ''online''), (''afk'', JBool False)])])]"
    by (intro exI[of _ as]) simp
qed

text \<open>
  The scenario: a session is ready, its socket drops, \<open>songA\<close> is stored while it is
  down, the reconnect fires, and the \<^verbatim>\<open>READY\<close> of the new socket 4 sends the frame of
  \<open>songA\<close>; on the ready session an update with \<open>songB\<close> is sent at once on socket 1.
\<close>

theorem updatePresence_stores_then_sends_witness:
  "currentActivity (heap (snd (updatePresence 0 songA droppedWorld)) 0) = songA
   \<and> ws (heap droppedWorld 0) = Some 1 \<and> readyState (sockets droppedWorld 1) \<noteq> OPEN
   \<and> trace (snd (updatePresence 0 songA droppedWorld)) = trace droppedWorld
   \<and> isDescriptor songA \<and> currentActivity (heap reopenedWorld 0) = songA
   \<and> ws (heap reopenedWorld 0) = Some 4 \<and> readyState (sockets reopenedWorld 4) = OPEN
   \<and> parseInt reopenedWorld (field songA ''type'') = Inr (JNum 2)
   \<and> sentFrames (trace (snd (handleMessage 0 4 (readyFrame 1) reopenedWorld))) =
       sentFrames (trace reopenedWorld) @
       [(4, JObj [(''op'', JNum 3),
                  (''d'', JObj [(''since'', JNum 0),
                                (''activities'',
                                   JArr [JObj [(''name'', JStr ''Song A''), (''type'', JNum 2),
                                               (''details'', JUndefined),
                                               (''state'', JStr ''by Artist''),
                                               (''assets'', JObj [])]]),
                                (''status'', JStr ''online''), (''afk'', JBool False)])])]
   \<and> isDescriptor songB \<and> ws (heap readyWorld 0) = Some 1 \<and> readyState (sockets readyWorld 1) = OPEN
   \<and> parseInt readyWorld (field songB ''type'') = Inr (JNum 2)
   \<and> sentFrames (trace (snd (updatePresence 0 songB readyWorld))) =
       sentFrames (trace readyWorld) @
       [(1, JObj [(''op'', JNum 3),
                  (''d'', JObj [(''since'', JNum 0),
                                (''activities'',
                                   JArr [JObj [(''name'', JStr ''Song B''), (''type'', JNum 2),
                                               (''details'', JStr ''Album''),
                                               (''state'', JUndefined),
                                               (''assets'', JObj [(''large_image'', JStr ''spotify:abc123''),
                                                                  (''large_text'', JStr ''Cover'')])]]),
                                (''status'', JStr ''online''), (''afk'', JBool False)])])]"
proof -
  note A = updatePresence_stores_then_sends[of 0 songA droppedWorld reopenedWorld 4 "JNum 2"
      "readyFrame 1" 4 1]
  note B = updatePresence_stores_then_sends[of 0 songB readyWorld reopenedWorld 4 "JNum 2"
      "readyFrame 1" 4 1]
  have s: "currentActivity (heap (snd (updatePresence 0 songA droppedWorld)) 0) = songA"
    by (rule A[THEN conjunct1])
  have h1: "ws (heap droppedWorld 0) = Some 1 \<and> readyState (sockets droppedWorld 1) \<noteq> OPEN"
    by (simp add: eval_defs)
  have h2: "isDescriptor songA \<and> currentActivity (heap reopenedWorld 0) = songA
      \<and> ws (heap reopenedWorld 0) = Some 4 \<and> readyState (sockets reopenedWorld 4) = OPEN
      \<and> (truthy (field songA ''name'') \<longrightarrow> parseInt reopenedWorld (field songA ''type'') = Inr (JNum 2))
      \<and> field (readyFrame 1) ''op'' = JNum 0 \<and> field (readyFrame 1) ''t'' = JStr ''READY''"
    by (simp add: eval_defs isDescriptor_def)
  have h3: "isDescriptor songB \<and> ws (heap readyWorld 0) = Some 1 \<and> readyState (sockets readyWorld 1) = OPEN
      \<and> (truthy (field songB ''name'') \<longrightarrow> parseInt readyWorld (field songB ''type'') = Inr (JNum 2))"
    by (simp add: eval_defs isDescriptor_def)
  have p2: "parseInt reopenedWorld (field songA ''type'') = Inr (JNum 2)"
    by (simp add: eval_defs)
  have p3: "parseInt readyWorld (field songB ''type'') = Inr (JNum 2)"
    by (simp add: eval_defs)
  have aA: "buildAssets songA = Inr []"
    by (simp add: songA_def buildAssets_def field_def)
  have aB: "buildAssets songB = Inr [(''large_image'', JStr ''spotify:abc123''), (''large_text'', JStr ''Cover'')]"
    by (simp add: songB_def buildAssets_def field_def extractSpotifyImageId_def startsWith_def
        split_pop_def spotifyRef_def)
  have c1: "trace (snd (updatePresence 0 songA droppedWorld)) = trace droppedWorld"
    using A[THEN conjunct2, THEN conjunct1] h1 by simp
  from A[THEN conjunct2, THEN conjunct2, THEN conjunct1, THEN mp, OF h2]
  obtain as where as: "buildAssets songA = Inr as"
    and f: "sentFrames (trace (snd (handleMessage 0 4 (readyFrame 1) reopenedWorld))) =
               sentFrames (trace reopenedWorld) @
               [(4, JObj [(''op'', JNum 3),
                           (''d'', JObj [(''since'', JNum 0),
                                         (''activities'',
                                            JArr (if truthy (field songA ''name'') then
                                                    [JObj [(''name'', field songA ''name''), (''type'', JNum 2),
                                                           (''details'', field songA ''details''),
                                                           (''state'', field songA ''state''),
                                                           (''assets'', JObj as)]]
                                                  else [])),
                                         (''status'', JStr ''online''), (''afk'', JBool False)])])]"
    by (elim exE conjE)
  from as aA have "as = []" by simp
  with f have c2: "sentFrames (trace (snd (handleMessage 0 4 (readyFrame 1) reopenedWorld))) =
       sentFrames (trace reopenedWorld) @
       [(4, JObj [(''op'', JNum 3),
                  (''d'', JObj [(''since'', JNum 0),
                                (''activities'',
                                   JArr [JObj [(''name'', JStr ''Song A''), (''type'', JNum 2),
                                               (''details'', JUndefined),
                                               (''state'', JStr ''by Artist''),
                                               (''assets'', JObj [])]]),
                                (''status'', JStr ''online''), (''afk'', JBool False)])])]"
    by (simp add: songA_def field_def)
  from B[THEN conjunct2, THEN conjunct2, THEN conjunct2, THEN mp, OF h3]
  obtain bs where bs: "buildAssets songB = Inr bs"
    and g: "sentFrames (trace (snd (updatePresence 0 songB readyWorld))) =
               sentFrames (trace readyWorld) @
               [(1, JObj [(''op'', JNum 3),
                          (''d'', JObj [(''since'', JNum 0),
                                        (''activities'',
                                           JArr (if truthy (field songB ''name'') then
                                                   [JObj [(''name'', field songB ''name''), (''type'', JNum 2),
                                                          (''details'', field songB ''details''),
                                                          (''state'', field songB ''state''),
                                                          (''assets'', JObj bs)]]
                                                 else [])),
                                        (''status'', JStr ''online''), (''afk'', JBool False)])])]"
    by (elim exE conjE)
  from bs aB have "bs = [(''large_image'', JStr ''spotify:abc123''), (''large_text'', JStr ''Cover'')]"
    by simp
  with g have c3: "sentFrames (trace (snd (updatePresence 0 songB readyWorld))) =
       sentFrames (trace readyWorld) @
       [(1, JObj [(''op'', JNum 3),
                  (''d'', JObj [(''since'', JNum 0),
                                (''activities'',
                                   JArr [JObj [(''name'', JStr ''Song B''), (''type'', JNum 2),
                                               (''details'', JStr ''Album''),
                                               (''state'', JUndefined),
                                               (''assets'', JObj [(''large_image'', JStr ''spotify:abc123''),
                                                                  (''large_text'', JStr ''Cover'')])]]),
                                (''status'', JStr ''online''), (''afk'', JBool False)])])]"
    by (simp add: songB_def field_def)
  from h2 have d2: "isDescriptor songA \<and> currentActivity (heap reopenedWorld 0) = songA
      \<and> ws (heap reopenedWorld 0) = Some 4 \<and> readyState (sockets reopenedWorld 4) = OPEN" by simp
  from h3 have d3: "isDescriptor songB \<and> ws (heap readyWorld 0) = Some 1
      \<and> readyState (sockets readyWorld 1) = OPEN" by simp
  show ?thesis
    by (intro conjI s c1 c2 c3 p2 p3 h1[THEN conjunct1] h1[THEN conjunct2]
        d2[THEN conjunct1] d2[THEN conjunct2, THEN conjunct1]
        d2[THEN conjunct2, THEN conjunct2, THEN conjunct1]
        d2[THEN conjunct2, THEN conjunct2, THEN conjunct2]
        d3[THEN conjunct1] d3[THEN conjunct2, THEN conjunct1]
        d3[THEN conjunct2, THEN conjunct2])
qed

text \<open>
  Claim C5 at an absent descriptor. Composing from \<^verbatim>\<open>null\<close> or \<^verbatim>\<open>undefined\<close> throws
  instead of giving the frame with no activity: on the ready, connected session, an
  update request whose \<open>activity\<close> is \<^verbatim>\<open>null\<close> is answered with status 500 and no frame
  is sent. The keep-alive timer of \<^verbatim>\<open>server.js\<close> composes from the same field and does
  give the empty frame for \<^verbatim>\<open>null\<close>.
\<close>

theorem absent_descriptor_throws:
  "compose P JNull = Inl TypeError \<and> compose P JUndefined = Inl TypeError
   \<and> connected 0 readyWorld = JBool True
   \<and> trace (step (ApiUpdateStatus (JObj [(''sessionId'', JStr ''abc''), (''activity'', JNull)])) readyWorld)
       = trace readyWorld @ [Respond 500 (JObj [(''error'', JStr ''Failed to update status''),
                                                 (''message'', JStr ''TypeError'')])]
   \<and> keepAliveFrame P JNull = Inr (presenceUpdate JNull)"
  by (simp add: eval_defs compose_def buildActivity_def keepAliveFrame_def errorMessage_def)

section \<open>The heartbeat monitor (C1)\<close>

lemma cleanup_heap:
  "heap (cleanup c w) = (heap w)(c := (heap w c)\<lparr>heartbeatTask := None, keepAliveTask := None\<rparr>)"
  by (auto simp: cleanup_def Let_def fun_eq_iff split: option.splits)

lemma cleanup_intervals:
  "intervals (cleanup c w) h =
     (if heartbeatTask (heap w c) = Some h \<or> keepAliveTask (heap w c) = Some h then None else intervals w h)"
  by (auto simp: cleanup_def Let_def split: option.splits)

lemma cleanup_trace:
  "trace (cleanup c w) =
     trace w @ (case heartbeatTask (heap w c) of Some h \<Rightarrow> [ClearInterval h] | None \<Rightarrow> [])
             @ (case keepAliveTask (heap w c) of Some h \<Rightarrow> [ClearInterval h] | None \<Rightarrow> [])"
  by (auto simp: cleanup_def Let_def split: option.splits)

lemma cleanup_fields [simp]:
  "variant (cleanup c w) = variant w" "parseInt (cleanup c w) = parseInt w"
  "sockets (cleanup c w) = sockets w"
  "promises (cleanup c w) = promises w" "awaiting (cleanup c w) = awaiting w"
  "activeConnections (cleanup c w) = activeConnections w"
  "clientWebSockets (cleanup c w) = clientWebSockets w" "clients (cleanup c w) = clients w"
  "timeouts (cleanup c w) = timeouts w" "fresh (cleanup c w) = fresh w"
  "crashed (cleanup c w) = crashed w"
  "sentFrames (trace (cleanup c w)) = sentFrames (trace w)"
  "reconnects (trace (cleanup c w)) = reconnects (trace w)"
  "notifications (trace (cleanup c w)) = notifications (trace w)"
  by (simp_all add: cleanup_def Let_def split: option.splits)

lemma cleanup_idle:
  "heartbeatTask (heap w c) = None \<Longrightarrow> keepAliveTask (heap w c) = None \<Longrightarrow> cleanup c w = w"
  by (simp add: cleanup_def)

lemma onClose_reconnects:
  "reconnects (trace (onClose k w)) =
     reconnects (trace w) @ (if shouldReconnect (heap w (owner (sockets w k))) then [(owner (sockets w k), 5000)] else [])"
  by (simp add: onClose_def Let_def cleanup_heap)

lemma onClose_sockets [simp]: "sockets (onClose k w) = sockets w"
  by (simp add: onClose_def Let_def)

lemma close_event_once:
  "step (WsClose k) (step (WsClose k) w) = step (WsClose k) w"
  by (simp add: step_def onClose_def Let_def)

text \<open>
  Claim C1, amended. On a heartbeat tick of a connection with socket \<open>k\<close>: if the last
  heartbeat is unacknowledged, \<^verbatim>\<open>close()\<close> is called on the socket and no frame is sent;
  an open socket becomes \<open>CLOSING\<close>. When the \<^verbatim>\<open>close\<close> event of a socket arrives, one
  reconnect with delay 5000 is scheduled if reconnect is enabled and none otherwise, and
  a second \<^verbatim>\<open>close\<close> event of the same socket changes nothing. If the last heartbeat
  is acknowledged and the socket is open, the flag is cleared and one heartbeat frame
  with the last sequence is sent; if the socket is absent or not open, the tick does
  nothing.
\<close>

theorem heartbeat_tick:
  "(\<not> heartbeatAcked (heap w c) \<and> ws (heap w c) = Some k \<longrightarrow>
      heartbeatTick c w = (None, ws_close k w)
      \<and> sentFrames (trace (snd (heartbeatTick c w))) = sentFrames (trace w))
   \<and> (\<not> heartbeatAcked (heap w c) \<and> ws (heap w c) = Some k \<and> readyState (sockets w k) = OPEN \<longrightarrow>
      trace (snd (heartbeatTick c w)) = trace w @ [Close k]
      \<and> readyState (sockets (snd (heartbeatTick c w)) k) = CLOSING)
   \<and> (\<not> crashed w' \<and> readyState (sockets w' k) \<noteq> CLOSED \<and> owner (sockets w' k) = c \<longrightarrow>
      reconnects (trace (step (WsClose k) w')) =
        reconnects (trace w') @ (if shouldReconnect (heap w' c) then [(c, 5000)] else [])
      \<and> step (WsClose k) (step (WsClose k) w') = step (WsClose k) w')
   \<and> (heartbeatAcked (heap w c) \<and> ws (heap w c) = Some k \<and> readyState (sockets w k) = OPEN \<longrightarrow>
      fst (heartbeatTick c w) = None
      \<and> trace (snd (heartbeatTick c w)) =
          trace w @ [Send k (JObj [(''op'', JNum 1), (''d'', lastSequence (heap w c))])]
      \<and> \<not> heartbeatAcked (heap (snd (heartbeatTick c w)) c))
   \<and> (heartbeatAcked (heap w c) \<and> (ws (heap w c) = None \<or> ws (heap w c) = Some k \<and> readyState (sockets w k) \<noteq> OPEN) \<longrightarrow>
      heartbeatTick c w = (None, w))"
proof (intro conjI impI)
  show "heartbeatTick c w = (None, ws_close k w)"
    if "\<not> heartbeatAcked (heap w c) \<and> ws (heap w c) = Some k"
    using that by (simp add: heartbeatTick_def)
  show "sentFrames (trace (snd (heartbeatTick c w))) = sentFrames (trace w)"
    if "\<not> heartbeatAcked (heap w c) \<and> ws (heap w c) = Some k"
    using that by (simp add: heartbeatTick_def)
  show "trace (snd (heartbeatTick c w)) = trace w @ [Close k]"
    if "\<not> heartbeatAcked (heap w c) \<and> ws (heap w c) = Some k \<and> readyState (sockets w k) = OPEN"
    using that by (simp add: heartbeatTick_def)
  show "readyState (sockets (snd (heartbeatTick c w)) k) = CLOSING"
    if "\<not> heartbeatAcked (heap w c) \<and> ws (heap w c) = Some k \<and> readyState (sockets w k) = OPEN"
    using that by (simp add: heartbeatTick_def)
  show "reconnects (trace (step (WsClose k) w')) =
        reconnects (trace w') @ (if shouldReconnect (heap w' c) then [(c, 5000)] else [])"
    if "\<not> crashed w' \<and> readyState (sockets w' k) \<noteq> CLOSED \<and> owner (sockets w' k) = c"
    using that by (simp add: step_def onClose_reconnects)
  show "step (WsClose k) (step (WsClose k) w') = step (WsClose k) w'"
    if "\<not> crashed w' \<and> readyState (sockets w' k) \<noteq> CLOSED \<and> owner (sockets w' k) = c"
    by (rule close_event_once)
  show "fst (heartbeatTick c w) = None"
    if "heartbeatAcked (heap w c) \<and> ws (heap w c) = Some k \<and> readyState (sockets w k) = OPEN"
    using that by (simp add: heartbeatTick_def Let_def)
  show "trace (snd (heartbeatTick c w)) =
          trace w @ [Send k (JObj [(''op'', JNum 1), (''d'', lastSequence (heap w c))])]"
    if "heartbeatAcked (heap w c) \<and> ws (heap w c) = Some k \<and> readyState (sockets w k) = OPEN"
    using that by (simp add: heartbeatTick_def Let_def)
  show "\<not> heartbeatAcked (heap (snd (heartbeatTick c w)) c)"
    if "heartbeatAcked (heap w c) \<and> ws (heap w c) = Some k \<and> readyState (sockets w k) = OPEN"
    using that by (simp add: heartbeatTick_def Let_def)
  show "heartbeatTick c w = (None, w)"
    if "heartbeatAcked (heap w c) \<and> (ws (heap w c) = None \<or> ws (heap w c) = Some k \<and> readyState (sockets w k) \<noteq> OPEN)"
    using that by (auto simp: heartbeatTick_def)
qed


text \<open>
  The four cases on the scenario worlds: an unacknowledged heartbeat on the ready
  session, the \<^verbatim>\<open>close\<close> event that follows, an acknowledged heartbeat on an open socket,
  and one on a closing socket.
\<close>

theorem heartbeat_tick_witness:
  "\<not> heartbeatAcked (heap unackedWorld 0) \<and> ws (heap unackedWorld 0) = Some 1
   \<and> readyState (sockets unackedWorld 1) = OPEN
   \<and> trace (snd (heartbeatTick 0 unackedWorld)) = trace unackedWorld @ [Close 1]
   \<and> sentFrames (trace (snd (heartbeatTick 0 unackedWorld))) = sentFrames (trace unackedWorld)
   \<and> \<not> crashed (step (IntervalFires 2) unackedWorld)
   \<and> readyState (sockets (step (IntervalFires 2) unackedWorld) 1) \<noteq> CLOSED
   \<and> owner (sockets (step (IntervalFires 2) unackedWorld) 1) = 0
   \<and> shouldReconnect (heap (step (IntervalFires 2) unackedWorld) 0)
   \<and> reconnects (trace (step (WsClose 1) (step (IntervalFires 2) unackedWorld))) =
        reconnects (trace (step (IntervalFires 2) unackedWorld)) @ [(0, 5000)]
   \<and> heartbeatAcked (heap readyWorld 0) \<and> ws (heap readyWorld 0) = Some 1
   \<and> readyState (sockets readyWorld 1) = OPEN
   \<and> trace (snd (heartbeatTick 0 readyWorld)) =
        trace readyWorld @ [Send 1 (JObj [(''op'', JNum 1), (''d'', lastSequence (heap readyWorld 0))])]
   \<and> heartbeatAcked (heap closingWorld 0) \<and> ws (heap closingWorld 0) = Some 1
   \<and> readyState (sockets closingWorld 1) \<noteq> OPEN
   \<and> heartbeatTick 0 closingWorld = (None, closingWorld)"
proof -
  let ?u = "step (IntervalFires 2) unackedWorld"
  have h1: "\<not> heartbeatAcked (heap unackedWorld 0) \<and> ws (heap unackedWorld 0) = Some 1
      \<and> readyState (sockets unackedWorld 1) = OPEN"
    by (simp add: eval_defs)
  have h2: "\<not> crashed ?u \<and> readyState (sockets ?u 1) \<noteq> CLOSED \<and> owner (sockets ?u 1) = 0
      \<and> shouldReconnect (heap ?u 0)"
    by (simp add: eval_defs)
  have h3: "heartbeatAcked (heap readyWorld 0) \<and> ws (heap readyWorld 0) = Some 1
      \<and> readyState (sockets readyWorld 1) = OPEN"
    by (simp add: eval_defs)
  have h4: "heartbeatAcked (heap closingWorld 0) \<and> ws (heap closingWorld 0) = Some 1
      \<and> readyState (sockets closingWorld 1) \<noteq> OPEN"
    by (simp add: eval_defs)
  note a = heartbeat_tick[of unackedWorld 0 1 ?u]
  note b = heartbeat_tick[of readyWorld 0 1 ?u]
  note c = heartbeat_tick[of closingWorld 0 1 ?u]
  from a h1 have c1: "trace (snd (heartbeatTick 0 unackedWorld)) = trace unackedWorld @ [Close 1]
      \<and> sentFrames (trace (snd (heartbeatTick 0 unackedWorld))) = sentFrames (trace unackedWorld)"
    by blast
  from a h2 have c2: "reconnects (trace (step (WsClose 1) ?u)) = reconnects (trace ?u) @ [(0, 5000)]"
    by simp
  from b h3 have c3: "trace (snd (heartbeatTick 0 readyWorld)) =
        trace readyWorld @ [Send 1 (JObj [(''op'', JNum 1), (''d'', lastSequence (heap readyWorld 0))])]"
    by blast
  from c h4 have c4: "heartbeatTick 0 closingWorld = (None, closingWorld)" by blast
  from h1 h2 h3 h4 c1 c2 c3 c4 show ?thesis by blast
qed

text \<open>
  Claim C1 as stated fails twice. After a reconnect request of the server the socket is
  closing while the heartbeat timer still runs: the tick finds the heartbeat
  acknowledged, sends nothing and leaves the flag as it was. And on a session that was
  disconnected while a reconnect was pending, the tick with an unacknowledged heartbeat
  closes socket 4 and the \<^verbatim>\<open>close\<close> event schedules no reconnect.
\<close>

theorem heartbeat_tick_without_frame_or_reconnect:
  "intervals closingWorld 2 = Some (HeartbeatTimer 0) \<and> heartbeatAcked (heap closingWorld 0)
   \<and> readyState (sockets closingWorld 1) = CLOSING
   \<and> trace (step (IntervalFires 2) closingWorld) = trace closingWorld
   \<and> heartbeatAcked (heap (step (IntervalFires 2) closingWorld) 0)
   \<and> intervals orphanWorld 5 = Some (HeartbeatTimer 0) \<and> \<not> heartbeatAcked (heap orphanWorld 0)
   \<and> trace (step (IntervalFires 5) orphanWorld) = trace orphanWorld @ [Close 4]
   \<and> reconnects (trace (run [IntervalFires 5, WsClose 4] orphanWorld)) = reconnects (trace orphanWorld)"
  by (simp add: eval_defs)

section \<open>The last-seen sequence (C9)\<close>

lemma handleMessage_lastSequence:
  "lastSequence (heap (snd (handleMessage c p payload w)) c) =
     (if truthy (field payload ''s'') then field payload ''s'' else lastSequence (heap w c))"
  by (simp add: handleMessage_def Let_def split_beta split: option.splits)

text \<open>
  Claim C9, amended. Handling a frame sets the stored sequence to the frame's sequence
  number when that is truthy (present and not 0), and leaves it unchanged otherwise,
  whatever else the handler does. So across a handled frame the stored sequence does
  not decrease provided the frame carries no sequence number or one that is at least
  the stored one. A heartbeat frame sent by a tick carries the stored sequence.
\<close>

theorem last_sequence_follows_frames:
  "lastSequence (heap (snd (handleMessage c p payload w)) c) =
     (if truthy (field payload ''s'') then field payload ''s'' else lastSequence (heap w c))
   \<and> (lastSequence (heap w c) = JNum a
        \<and> (field payload ''s'' = JNum b \<and> a \<le> b \<or> \<not> truthy (field payload ''s'')) \<longrightarrow>
        (\<exists>n. lastSequence (heap (snd (handleMessage c p payload w)) c) = JNum n \<and> a \<le> n))
   \<and> (heartbeatAcked (heap w c) \<and> ws (heap w c) = Some k \<and> readyState (sockets w k) = OPEN \<longrightarrow>
        sentFrames (trace (snd (heartbeatTick c w))) =
          sentFrames (trace w) @ [(k, JObj [(''op'', JNum 1), (''d'', lastSequence (heap w c))])])"
proof (intro conjI impI)
  show A: "lastSequence (heap (snd (handleMessage c p payload w)) c) =
     (if truthy (field payload ''s'') then field payload ''s'' else lastSequence (heap w c))"
    by (rule handleMessage_lastSequence)
  show "\<exists>n. lastSequence (heap (snd (handleMessage c p payload w)) c) = JNum n \<and> a \<le> n"
    if "lastSequence (heap w c) = JNum a
        \<and> (field payload ''s'' = JNum b \<and> a \<le> b \<or> \<not> truthy (field payload ''s''))"
    using that unfolding A by auto
  show "sentFrames (trace (snd (heartbeatTick c w))) =
          sentFrames (trace w) @ [(k, JObj [(''op'', JNum 1), (''d'', lastSequence (heap w c))])]"
    if "heartbeatAcked (heap w c) \<and> ws (heap w c) = Some k \<and> readyState (sockets w k) = OPEN"
    using that by (simp add: heartbeatTick_def Let_def)
qed

text \<open>A dispatch with sequence 2 on the ready session, and a heartbeat tick there.\<close>

theorem last_sequence_follows_frames_witness:
  "lastSequence (heap readyWorld 0) = JNum 1 \<and> field (dispatchFrame 2) ''s'' = JNum 2 \<and> (1::int) \<le> 2
   \<and> (\<exists>n. lastSequence (heap (snd (handleMessage 0 1 (dispatchFrame 2) readyWorld)) 0) = JNum n \<and> 1 \<le> n)
   \<and> heartbeatAcked (heap readyWorld 0) \<and> ws (heap readyWorld 0) = Some 1
   \<and> readyState (sockets readyWorld 1) = OPEN
   \<and> sentFrames (trace (snd (heartbeatTick 0 readyWorld))) =
        sentFrames (trace readyWorld) @ [(1, JObj [(''op'', JNum 1), (''d'', lastSequence (heap readyWorld 0))])]"
proof -
  have h1: "lastSequence (heap readyWorld 0) = JNum 1 \<and> field (dispatchFrame 2) ''s'' = JNum 2 \<and> (1::int) \<le> 2"
    by (simp add: eval_defs)
  have h2: "heartbeatAcked (heap readyWorld 0) \<and> ws (heap readyWorld 0) = Some 1
      \<and> readyState (sockets readyWorld 1) = OPEN"
    by (simp add: eval_defs)
  note a = last_sequence_follows_frames[of 0 1 "dispatchFrame 2" readyWorld 1 2 1]
  from a h1 have c1: "\<exists>n. lastSequence (heap (snd (handleMessage 0 1 (dispatchFrame 2) readyWorld)) 0) = JNum n \<and> 1 \<le> n"
    by blast
  from a h2 have c2: "sentFrames (trace (snd (heartbeatTick 0 readyWorld))) =
        sentFrames (trace readyWorld) @ [(1, JObj [(''op'', JNum 1), (''d'', lastSequence (heap readyWorld 0))])]"
    by blast
  from h1 h2 c1 c2 show ?thesis by blast
qed

text \<open>
  Claim C9 as stated fails. The stored sequence is kept across a reconnect, and the
  fresh handshake starts the server's numbering again: with 2 stored and socket 4 open,
  the \<^verbatim>\<open>READY\<close> dispatch with sequence 1 lowers it to 1. A frame that carries sequence 0
  does not update it.
\<close>

theorem last_sequence_decreases_after_reconnect:
  "lastSequence (heap reconnectedWorld 0) = JNum 2
   \<and> ws (heap reconnectedWorld 0) = Some 4 \<and> readyState (sockets reconnectedWorld 4) = OPEN
   \<and> lastSequence (heap (step (WsMessage 4 (readyFrame 1)) reconnectedWorld) 0) = JNum 1
   \<and> field (dispatchFrame 0) ''s'' = JNum 0
   \<and> lastSequence (heap (step (WsMessage 4 (dispatchFrame 0)) reconnectedWorld) 0) = JNum 2"
  by (simp add: eval_defs)

section \<open>Status of an unknown session (C10)\<close>

text \<open>
  Claim C10. For a session identifier that the registry does not hold, the status
  request answers 200 with exactly \<^verbatim>\<open>{connected: false}\<close> and changes nothing else. A
  session that is held but whose socket is not open is answered 200 with
  \<^verbatim>\<open>connected: false\<close> as well (and its current activity), and every status request is
  answered 200: the status code does not tell the two apart.
\<close>

theorem status_of_unknown_session:
  "(activeConnections w (JStr sid) = None \<longrightarrow>
      apiStatus sid w = w\<lparr>trace := trace w @ [Respond 200 (JObj [(''connected'', JBool False)])]\<rparr>)
   \<and> (activeConnections w (JStr sid) = Some c \<and> ws (heap w c) = Some k \<and> readyState (sockets w k) \<noteq> OPEN \<longrightarrow>
      apiStatus sid w = w\<lparr>trace := trace w @ [Respond 200 (JObj [(''connected'', JBool False),
                             (''currentActivity'', currentActivity (heap w c))])]\<rparr>)
   \<and> (\<exists>body. apiStatus sid w = w\<lparr>trace := trace w @ [Respond 200 body]\<rparr>)"
  by (auto simp: apiStatus_def respond_def emit_def connected_def split: option.splits)

text \<open>After the socket of session \<^verbatim>\<open>abc\<close> dropped: the unknown \<^verbatim>\<open>zzz\<close> and the known \<^verbatim>\<open>abc\<close>.\<close>

theorem status_of_unknown_session_witness:
  "activeConnections droppedWorld (JStr ''zzz'') = None
   \<and> apiStatus ''zzz'' droppedWorld =
       droppedWorld\<lparr>trace := trace droppedWorld @ [Respond 200 (JObj [(''connected'', JBool False)])]\<rparr>
   \<and> activeConnections droppedWorld (JStr ''abc'') = Some 0
   \<and> ws (heap droppedWorld 0) = Some 1 \<and> readyState (sockets droppedWorld 1) \<noteq> OPEN
   \<and> apiStatus ''abc'' droppedWorld =
       droppedWorld\<lparr>trace := trace droppedWorld @ [Respond 200 (JObj [(''connected'', JBool False),
                             (''currentActivity'', currentActivity (heap droppedWorld 0))])]\<rparr>"
proof -
  have h1: "activeConnections droppedWorld (JStr ''zzz'') = None"
    by (simp add: eval_defs)
  have h2: "activeConnections droppedWorld (JStr ''abc'') = Some 0 \<and> ws (heap droppedWorld 0) = Some 1
      \<and> readyState (sockets droppedWorld 1) \<noteq> OPEN"
    by (simp add: eval_defs)
  from status_of_unknown_session[of droppedWorld "''zzz''" 0 1] h1
       status_of_unknown_session[of droppedWorld "''abc''" 0 1] h2
  show ?thesis by blast
qed

section \<open>Disconnecting twice (C3)\<close>

lemma upd_same: "f (heap w c) = heap w c \<Longrightarrow> upd c f w = w"
  by (simp add: upd_def)

lemma ws_close_idle:
  "readyState (sockets w k) \<noteq> OPEN \<Longrightarrow> readyState (sockets w k) \<noteq> CONNECTING \<Longrightarrow> ws_close k w = w"
  by (simp add: ws_close_def)

lemma ws_close_state:
  "readyState (sockets (ws_close k w) k) \<noteq> OPEN \<and> readyState (sockets (ws_close k w) k) \<noteq> CONNECTING"
  by (simp add: ws_close_def)

lemma disconnect_heap:
  "heap (disconnect c w) =
     (heap w)(c := (heap w c)\<lparr>shouldReconnect := False, currentActivity := JNull,
                               heartbeatTask := None, keepAliveTask := None\<rparr>)"
  by (auto simp: disconnect_def Let_def cleanup_heap fun_eq_iff split: option.splits)

lemma disconnect_sockets:
  "sockets (disconnect c w) =
     (case ws (heap w c) of Some k \<Rightarrow> sockets (ws_close k w) | None \<Rightarrow> sockets w)"
  by (simp add: disconnect_def Let_def split: option.splits)

lemma disconnect_intervals:
  "intervals (disconnect c w) h =
     (if heartbeatTask (heap w c) = Some h \<or> keepAliveTask (heap w c) = Some h then None
      else intervals w h)"
  by (simp add: disconnect_def Let_def cleanup_intervals split: option.splits)

lemma disconnect_trace:
  "trace (disconnect c w) =
     trace w
     @ (case ws (heap w c) of
          None \<Rightarrow> []
        | Some k \<Rightarrow>
            (if readyState (sockets w k) = OPEN \<or> readyState (sockets w k) = CONNECTING
             then [Close k] else []))
     @ (case heartbeatTask (heap w c) of Some h \<Rightarrow> [ClearInterval h] | None \<Rightarrow> [])
     @ (case keepAliveTask (heap w c) of Some h \<Rightarrow> [ClearInterval h] | None \<Rightarrow> [])
     @ (if variant w = WithHub
        then (case clientWebSockets w (JStr (sessionId (heap w c))) of
                None \<Rightarrow> []
              | Some cw \<Rightarrow> (if clientState (clients w cw) = OPEN then [ClientSend cw session_ended] else []))
        else [])"
  by (simp add: disconnect_def Let_def notifyClient_trace cleanup_trace cleanup_heap
      split: option.splits)

lemma disconnect_fields [simp]:
  "variant (disconnect c w) = variant w" "parseInt (disconnect c w) = parseInt w"
  "promises (disconnect c w) = promises w" "awaiting (disconnect c w) = awaiting w"
  "activeConnections (disconnect c w) = activeConnections w"
  "clientWebSockets (disconnect c w) = clientWebSockets w" "clients (disconnect c w) = clients w"
  "timeouts (disconnect c w) = timeouts w" "fresh (disconnect c w) = fresh w"
  "crashed (disconnect c w) = crashed w"
  "sentFrames (trace (disconnect c w)) = sentFrames (trace w)"
  "reconnects (trace (disconnect c w)) = reconnects (trace w)"
  by (simp_all add: disconnect_def Let_def ws_close_def split: option.splits)

lemma disconnect_closed:
  "ws (heap (disconnect c w) c) = Some k \<Longrightarrow>
   readyState (sockets (disconnect c w) k) \<noteq> OPEN \<and> readyState (sockets (disconnect c w) k) \<noteq> CONNECTING"
  by (simp add: disconnect_heap disconnect_sockets ws_close_def)

lemma disconnect_again:
  "disconnect c (disconnect c w) = notifyClient (sessionId (heap w c)) session_ended (disconnect c w)"
proof -
  let ?w1 = "disconnect c w"
  have u: "upd c (\<lambda>this. this\<lparr>shouldReconnect := False, currentActivity := JNull\<rparr>) ?w1 = ?w1"
    by (rule upd_same) (simp add: disconnect_heap)
  have cl: "(case ws (heap ?w1 c) of Some k \<Rightarrow> ws_close k ?w1 | None \<Rightarrow> ?w1) = ?w1"
    using disconnect_closed[of c w] by (auto simp: ws_close_idle split: option.splits)
  have cu: "cleanup c ?w1 = ?w1"
    by (rule cleanup_idle) (simp_all add: disconnect_heap)
  have sid: "sessionId (heap ?w1 c) = sessionId (heap w c)"
    by (simp add: disconnect_heap)
  have "disconnect c ?w1 = notifyClient (sessionId (heap ?w1 c)) session_ended ?w1"
    unfolding disconnect_def[of c ?w1] Let_def u cl cu ..
  then show ?thesis by (simp only: sid)
qed

text \<open>
  Claim C3, amended. A second \<^verbatim>\<open>disconnect()\<close> changes nothing but the notification:
  its result is the result of the first call with \<open>session_ended\<close> published once
  more. So the trace grows by that notification when the hub is present and an open
  subscriber is registered for the session, and by nothing otherwise (no second timer
  clear, no second close of the socket); without the hub the second call is the
  identity. The first call leaves every connection but \<open>c\<close> as it was and sets, on \<open>c\<close>,
  reconnect to disabled, the current activity to \<^verbatim>\<open>null\<close> and both timer handles to
  \<^verbatim>\<open>null\<close>; the socket, if any, is then neither open nor connecting. What the first call
  does, in order: \<^verbatim>\<open>close()\<close> on the socket if it is open or connecting,
  \<^verbatim>\<open>clearInterval\<close> on the heartbeat timer and on the keep-alive timer if the connection
  holds them, and the notification. The two intervals no longer run afterwards, and
  every other interval does as before.
\<close>

theorem disconnect_twice:
  "disconnect c (disconnect c w) = notifyClient (sessionId (heap w c)) session_ended (disconnect c w)
   \<and> trace (disconnect c (disconnect c w)) =
       trace (disconnect c w) @
         (if variant w = WithHub
          then (case clientWebSockets w (JStr (sessionId (heap w c))) of
                  None \<Rightarrow> []
                | Some cw \<Rightarrow> (if clientState (clients w cw) = OPEN then [ClientSend cw session_ended] else []))
          else [])
   \<and> (variant w = Plain \<longrightarrow> disconnect c (disconnect c w) = disconnect c w)
   \<and> \<not> shouldReconnect (heap (disconnect c w) c)
   \<and> heartbeatTask (heap (disconnect c w) c) = None \<and> keepAliveTask (heap (disconnect c w) c) = None
   \<and> (\<forall>k. ws (heap (disconnect c w) c) = Some k \<longrightarrow>
         readyState (sockets (disconnect c w) k) \<noteq> OPEN
         \<and> readyState (sockets (disconnect c w) k) \<noteq> CONNECTING)
   \<and> heap (disconnect c w) =
       (heap w)(c := (heap w c)\<lparr>shouldReconnect := False, currentActivity := JNull,
                                 heartbeatTask := None, keepAliveTask := None\<rparr>)
   \<and> trace (disconnect c w) =
       trace w
       @ (case ws (heap w c) of
            None \<Rightarrow> []
          | Some k \<Rightarrow>
              (if readyState (sockets w k) = OPEN \<or> readyState (sockets w k) = CONNECTING
               then [Close k] else []))
       @ (case heartbeatTask (heap w c) of Some h \<Rightarrow> [ClearInterval h] | None \<Rightarrow> [])
       @ (case keepAliveTask (heap w c) of Some h \<Rightarrow> [ClearInterval h] | None \<Rightarrow> [])
       @ (if variant w = WithHub
          then (case clientWebSockets w (JStr (sessionId (heap w c))) of
                  None \<Rightarrow> []
                | Some cw \<Rightarrow> (if clientState (clients w cw) = OPEN then [ClientSend cw session_ended] else []))
          else [])
   \<and> intervals (disconnect c w) h =
       (if heartbeatTask (heap w c) = Some h \<or> keepAliveTask (heap w c) = Some h then None
        else intervals w h)"
proof (intro conjI)
  show "disconnect c (disconnect c w) = notifyClient (sessionId (heap w c)) session_ended (disconnect c w)"
    by (rule disconnect_again)
  show "trace (disconnect c (disconnect c w)) =
       trace (disconnect c w) @
         (if variant w = WithHub
          then (case clientWebSockets w (JStr (sessionId (heap w c))) of
                  None \<Rightarrow> []
                | Some cw \<Rightarrow> (if clientState (clients w cw) = OPEN then [ClientSend cw session_ended] else []))
          else [])"
    by (simp add: disconnect_again notifyClient_trace disconnect_heap split: option.splits)
  show "variant w = Plain \<longrightarrow> disconnect c (disconnect c w) = disconnect c w"
    by (simp add: disconnect_again)
  show "\<not> shouldReconnect (heap (disconnect c w) c)"
    by (simp add: disconnect_heap)
  show "heartbeatTask (heap (disconnect c w) c) = None"
    by (simp add: disconnect_heap)
  show "keepAliveTask (heap (disconnect c w) c) = None"
    by (simp add: disconnect_heap)
  show "\<forall>k. ws (heap (disconnect c w) c) = Some k \<longrightarrow>
         readyState (sockets (disconnect c w) k) \<noteq> OPEN
         \<and> readyState (sockets (disconnect c w) k) \<noteq> CONNECTING"
    using disconnect_closed[of c w] by blast
  show "heap (disconnect c w) =
       (heap w)(c := (heap w c)\<lparr>shouldReconnect := False, currentActivity := JNull,
                                 heartbeatTask := None, keepAliveTask := None\<rparr>)"
    by (rule disconnect_heap)
  show "trace (disconnect c w) =
       trace w
       @ (case ws (heap w c) of
            None \<Rightarrow> []
          | Some k \<Rightarrow>
              (if readyState (sockets w k) = OPEN \<or> readyState (sockets w k) = CONNECTING
               then [Close k] else []))
       @ (case heartbeatTask (heap w c) of Some h \<Rightarrow> [ClearInterval h] | None \<Rightarrow> [])
       @ (case keepAliveTask (heap w c) of Some h \<Rightarrow> [ClearInterval h] | None \<Rightarrow> [])
       @ (if variant w = WithHub
          then (case clientWebSockets w (JStr (sessionId (heap w c))) of
                  None \<Rightarrow> []
                | Some cw \<Rightarrow> (if clientState (clients w cw) = OPEN then [ClientSend cw session_ended] else []))
          else [])"
    by (rule disconnect_trace)
  show "intervals (disconnect c w) h =
       (if heartbeatTask (heap w c) = Some h \<or> keepAliveTask (heap w c) = Some h then None
        else intervals w h)"
    by (rule disconnect_intervals)
qed

text \<open>
  Without the hub. On the session whose socket dropped the second call changes
  nothing. On the ready session that shows \<open>songA\<close>, the first call closes socket 1,
  clears the heartbeat timer 2, which no longer runs, and clears the current activity;
  the second call adds nothing to the trace.
\<close>

theorem disconnect_twice_witness:
  "variant droppedWorld = Plain
   \<and> disconnect 0 (disconnect 0 droppedWorld) = disconnect 0 droppedWorld
   \<and> ws (heap (disconnect 0 playingWorld) 0) = Some 1
   \<and> readyState (sockets (disconnect 0 playingWorld) 1) \<noteq> OPEN
   \<and> currentActivity (heap playingWorld 0) = songA
   \<and> currentActivity (heap (disconnect 0 playingWorld) 0) = JNull
   \<and> intervals playingWorld 2 = Some (HeartbeatTimer 0)
   \<and> intervals (disconnect 0 playingWorld) 2 = None
   \<and> trace (disconnect 0 playingWorld) = trace playingWorld @ [Close 1, ClearInterval 2]
   \<and> trace (disconnect 0 (disconnect 0 playingWorld)) = trace (disconnect 0 playingWorld)"
proof -
  note D = disconnect_twice[of 0 droppedWorld 3]
  note P = disconnect_twice[of 0 playingWorld 2]
  have h1: "variant droppedWorld = Plain" "variant playingWorld = Plain"
    by (simp_all add: eval_defs compose_def buildActivity_def buildAssets_def)
  have h2: "ws (heap playingWorld 0) = Some 1" "readyState (sockets playingWorld 1) = OPEN"
    "heartbeatTask (heap playingWorld 0) = Some 2" "keepAliveTask (heap playingWorld 0) = None"
    by (simp_all add: eval_defs compose_def buildActivity_def buildAssets_def)
  have h3: "currentActivity (heap playingWorld 0) = songA" "intervals playingWorld 2 = Some (HeartbeatTimer 0)"
    by (simp_all add: eval_defs compose_def buildActivity_def buildAssets_def)
  from P have hp: "heap (disconnect 0 playingWorld) =
       (heap playingWorld)(0 := (heap playingWorld 0)\<lparr>shouldReconnect := False, currentActivity := JNull,
                                 heartbeatTask := None, keepAliveTask := None\<rparr>)"
    by blast
  from hp h2 have c0: "ws (heap (disconnect 0 playingWorld) 0) = Some 1" by simp
  from hp have c5: "currentActivity (heap (disconnect 0 playingWorld) 0) = JNull" by simp
  from D h1 have c1: "disconnect 0 (disconnect 0 droppedWorld) = disconnect 0 droppedWorld" by blast
  from P c0 have c3: "readyState (sockets (disconnect 0 playingWorld) 1) \<noteq> OPEN" by blast
  from P h1 have c4: "trace (disconnect 0 (disconnect 0 playingWorld)) = trace (disconnect 0 playingWorld)"
    by simp
  from P h2 have c6: "intervals (disconnect 0 playingWorld) 2 = None" by simp
  from P have "trace (disconnect 0 playingWorld) =
       trace playingWorld
       @ (case ws (heap playingWorld 0) of
            None \<Rightarrow> []
          | Some k \<Rightarrow>
              (if readyState (sockets playingWorld k) = OPEN \<or> readyState (sockets playingWorld k) = CONNECTING
               then [Close k] else []))
       @ (case heartbeatTask (heap playingWorld 0) of Some h \<Rightarrow> [ClearInterval h] | None \<Rightarrow> [])
       @ (case keepAliveTask (heap playingWorld 0) of Some h \<Rightarrow> [ClearInterval h] | None \<Rightarrow> [])
       @ (if variant playingWorld = WithHub
          then (case clientWebSockets playingWorld (JStr (sessionId (heap playingWorld 0))) of
                  None \<Rightarrow> []
                | Some cw \<Rightarrow> (if clientState (clients playingWorld cw) = OPEN then [ClientSend cw session_ended] else []))
          else [])"
    by blast
  with h1 h2 have c7: "trace (disconnect 0 playingWorld) = trace playingWorld @ [Close 1, ClearInterval 2]"
    by simp
  from h1 h3 c0 c1 c3 c4 c5 c6 c7 show ?thesis by blast
qed

text \<open>
  Claim C3 as stated fails in \<^verbatim>\<open>server.js\<close>: with a browser socket registered for the
  session, the second call publishes \<open>session_ended\<close> a second time.
\<close>

theorem disconnect_twice_notifies_twice:
  "notifications (trace (disconnect 0 hubWorld)) = notifications (trace hubWorld) @ [(4, session_ended)]
   \<and> notifications (trace (disconnect 0 (disconnect 0 hubWorld))) =
       notifications (trace hubWorld) @ [(4, session_ended), (4, session_ended)]"
  by (simp add: eval_defs)

section \<open>What each handler changes\<close>

lemma updatePresence_fields [simp]:
  "variant (snd (updatePresence c d w)) = variant w"
  "parseInt (snd (updatePresence c d w)) = parseInt w"
  "sockets (snd (updatePresence c d w)) = sockets w"
  "promises (snd (updatePresence c d w)) = promises w"
  "awaiting (snd (updatePresence c d w)) = awaiting w"
  "activeConnections (snd (updatePresence c d w)) = activeConnections w"
  "clientWebSockets (snd (updatePresence c d w)) = clientWebSockets w"
  "clients (snd (updatePresence c d w)) = clients w"
  "intervals (snd (updatePresence c d w)) = intervals w"
  "timeouts (snd (updatePresence c d w)) = timeouts w"
  "fresh (snd (updatePresence c d w)) = fresh w"
  "crashed (snd (updatePresence c d w)) = crashed w"
  "reconnects (trace (snd (updatePresence c d w))) = reconnects (trace w)"
  by (simp_all add: updatePresence_def Let_def split: option.splits sum.splits)

lemma startKeepAlive_more [simp]:
  "promises (startKeepAlive c w) = promises w"
  "awaiting (startKeepAlive c w) = awaiting w"
  "activeConnections (startKeepAlive c w) = activeConnections w"
  "clientWebSockets (startKeepAlive c w) = clientWebSockets w"
  "clients (startKeepAlive c w) = clients w"
  "timeouts (startKeepAlive c w) = timeouts w"
  "crashed (startKeepAlive c w) = crashed w"
  "reconnects (trace (startKeepAlive c w)) = reconnects (trace w)"
  by (simp_all add: startKeepAlive_def Let_def split_beta split: option.splits)

lemma handleMessage_fields [simp]:
  "awaiting (snd (handleMessage c p payload w)) = awaiting w"
  "activeConnections (snd (handleMessage c p payload w)) = activeConnections w"
  "crashed (snd (handleMessage c p payload w)) = crashed w"
  "timeouts (snd (handleMessage c p payload w)) = timeouts w"
  "variant (snd (handleMessage c p payload w)) = variant w"
  "reconnects (trace (snd (handleMessage c p payload w))) = reconnects (trace w)"
  by (simp_all add: handleMessage_def Let_def split_beta ws_close_def split: option.splits)

lemma handleMessage_shouldReconnect [simp]:
  "shouldReconnect (heap (snd (handleMessage c p payload w)) c') = shouldReconnect (heap w c')"
  by (simp add: handleMessage_def Let_def split_beta split: option.splits)

lemma handleMessage_promises:
  "promises (snd (handleMessage c p payload w)) =
     (if \<not> nullish payload \<and> field payload ''op'' = JNum 0 \<and> field payload ''t'' = JStr ''READY''
         \<and> promises w p = Pending
      then (promises w)(p := Fulfilled) else promises w)"
  by (auto simp: handleMessage_def Let_def split_beta split: option.splits)

lemma heartbeatTick_fields [simp]:
  "awaiting (snd (heartbeatTick c w)) = awaiting w"
  "promises (snd (heartbeatTick c w)) = promises w"
  "activeConnections (snd (heartbeatTick c w)) = activeConnections w"
  "crashed (snd (heartbeatTick c w)) = crashed w"
  "shouldReconnect (heap (snd (heartbeatTick c w)) c') = shouldReconnect (heap w c')"
  by (simp_all add: heartbeatTick_def Let_def split: option.splits)

lemma keepAliveTick_fields [simp]:
  "awaiting (snd (keepAliveTick c w)) = awaiting w"
  "promises (snd (keepAliveTick c w)) = promises w"
  "activeConnections (snd (keepAliveTick c w)) = activeConnections w"
  "crashed (snd (keepAliveTick c w)) = crashed w"
  "heap (snd (keepAliveTick c w)) = heap w"
  by (simp_all add: keepAliveTick_def split: option.splits sum.splits)

lemma connect_fields [simp]:
  "fst (connect c w) = fresh w"
  "awaiting (snd (connect c w)) = awaiting w"
  "promises (snd (connect c w)) = (promises w)(fresh w := Pending)"
  "activeConnections (snd (connect c w)) = activeConnections w"
  "crashed (snd (connect c w)) = crashed w"
  "heap (snd (connect c w)) = (heap w)(c := (heap w c)\<lparr>ws := Some (fresh w)\<rparr>)"
  "fresh (snd (connect c w)) = Suc (fresh w)"
  by (simp_all add: connect_def Let_def)

lemma onClose_fields [simp]:
  "awaiting (onClose k w) = awaiting w"
  "promises (onClose k w) = promises w"
  "activeConnections (onClose k w) = activeConnections w"
  "crashed (onClose k w) = crashed w"
  "shouldReconnect (heap (onClose k w) c') = shouldReconnect (heap w c')"
  by (simp_all add: onClose_def Let_def cleanup_heap)

lemma resume_fields [simp]:
  "heap (resume p w) = heap w" "crashed (resume p w) = crashed w" "promises (resume p w) = promises w"
  "sockets (resume p w) = sockets w"
  by (simp_all add: resume_def split: option.splits promise.splits)

lemma resume_registry:
  "activeConnections (resume p w) =
     (case awaiting w p of
        None \<Rightarrow> activeConnections w
      | Some (sid, c) \<Rightarrow>
          (if promises w p = Fulfilled then (activeConnections w)(JStr sid \<mapsto> c) else activeConnections w))"
  by (simp add: resume_def split: option.splits promise.splits)

lemma resume_keeps:
  "activeConnections w s = Some y \<Longrightarrow> \<exists>y'. activeConnections (resume p w) s = Some y'"
  by (simp add: resume_registry split: option.splits)

lemma apiConnect_fields [simp]:
  "activeConnections (apiConnect body sid w) = activeConnections w"
  "crashed (apiConnect body sid w) = crashed w"
  by (simp_all add: apiConnect_def Let_def split_beta)

lemma apiConnect_heap:
  "heap (apiConnect body sid w) c' =
     (if truthy (field body ''token'') \<and> c' = fresh w
      then (newDiscordConnection (field body ''token'') sid)\<lparr>ws := Some (Suc (fresh w))\<rparr>
      else heap w c')"
  by (simp add: apiConnect_def Let_def split_beta)

lemma apiConnect_awaiting:
  "awaiting (apiConnect body sid w) =
     (if truthy (field body ''token'') then (awaiting w)(Suc (fresh w) \<mapsto> (sid, fresh w)) else awaiting w)"
  by (simp add: apiConnect_def Let_def split_beta)

lemma apiConnect_promises:
  "promises (apiConnect body sid w) =
     (if truthy (field body ''token'') then (promises w)(Suc (fresh w) := Pending) else promises w)"
  by (simp add: apiConnect_def Let_def split_beta)

lemma case_result:
  "(case r of (None, w1) \<Rightarrow> f w1 | (Some e, w1) \<Rightarrow> g e w1) =
     (case fst r of None \<Rightarrow> f (snd r) | Some e \<Rightarrow> g e (snd r))"
  by (cases r; cases "fst r") auto

lemma uncaught_alt:
  "uncaught r = (case fst r of None \<Rightarrow> snd r | Some e \<Rightarrow> (snd r)\<lparr>crashed := True\<rparr>)"
  by (simp add: uncaught_def case_result)

lemma apiUpdateStatus_fields [simp]:
  "activeConnections (apiUpdateStatus body w) = activeConnections w"
  "awaiting (apiUpdateStatus body w) = awaiting w"
  "promises (apiUpdateStatus body w) = promises w"
  "crashed (apiUpdateStatus body w) = crashed w"
  "shouldReconnect (heap (apiUpdateStatus body w) c') = shouldReconnect (heap w c')"
  by (simp_all add: apiUpdateStatus_def Let_def case_result split: option.splits)

lemma apiDisconnect_fields [simp]:
  "awaiting (apiDisconnect body w) = awaiting w"
  "promises (apiDisconnect body w) = promises w"
  "crashed (apiDisconnect body w) = crashed w"
  by (simp_all add: apiDisconnect_def Let_def split: option.splits)

lemma client_fields [simp]:
  "activeConnections (clientConnect w) = activeConnections w"
  "activeConnections (clientMessage cw data w) = activeConnections w"
  "activeConnections (clientClose cw w) = activeConnections w"
  "heap (clientConnect w) = heap w"
  "heap (clientMessage cw data w) = heap w"
  "heap (clientClose cw w) = heap w"
  "awaiting (clientConnect w) = awaiting w"
  "awaiting (clientMessage cw data w) = awaiting w"
  "awaiting (clientClose cw w) = awaiting w"
  "promises (clientConnect w) = promises w"
  "promises (clientMessage cw data w) = promises w"
  "promises (clientClose cw w) = promises w"
  "crashed (clientConnect w) = crashed w"
  "crashed (clientMessage cw data w) = crashed w"
  "crashed (clientClose cw w) = crashed w"
  by (simp_all add: clientConnect_def clientMessage_def clientClose_def Let_def split: option.splits)

lemma apiStatus_fields [simp]:
  "activeConnections (apiStatus sid w) = activeConnections w"
  "heap (apiStatus sid w) = heap w"
  "awaiting (apiStatus sid w) = awaiting w"
  "promises (apiStatus sid w) = promises w"
  "crashed (apiStatus sid w) = crashed w"
  by (simp_all add: apiStatus_def split: option.splits)

lemma step_crashed: "crashed w \<Longrightarrow> step e w = w"
  by (simp add: step_def)

section \<open>Socket drops and the registry (C4)\<close>

lemma step_keeps_registry:
  "\<not> isDisconnectRequest e \<Longrightarrow> activeConnections w s \<noteq> None \<Longrightarrow>
   activeConnections (step e w) s \<noteq> None"
  by (cases e)
     (auto simp: step_def uncaught_alt onMessage_def onError_def
           intro: resume_keeps split: option.splits timer.splits)

lemma step_keeps_flag:
  "\<not> isDisconnectRequest e \<Longrightarrow> shouldReconnect (heap w c) \<Longrightarrow>
   shouldReconnect (heap (step e w) c)"
  by (cases e)
     (auto simp: step_def uncaught_alt onMessage_def onError_def apiConnect_heap
           newDiscordConnection_def
           split: option.splits timer.splits)

lemma reconnect_request_closes:
  assumes "\<not> crashed w" "readyState (sockets w k) = OPEN" "ws (heap w (owner (sockets w k))) = Some k"
    "field payload ''op'' = JNum 7"
  shows "readyState (sockets (step (WsMessage k payload) w) k) = CLOSING
         \<and> reconnects (trace (step (WsMessage k payload) w)) = reconnects (trace w)"
proof -
  let ?c = "owner (sockets w k)"
  let ?w1 = "(if truthy (field payload ''s'') then upd ?c (\<lambda>this. this\<lparr>lastSequence := field payload ''s''\<rparr>) w else w)"
  have np: "\<not> nullish payload" using assms(4) by (auto simp: nullish_def field_def)
  have hm: "handleMessage ?c k payload w = (None, ws_close k ?w1)"
    using np assms(3,4) by (simp add: handleMessage_def Let_def)
  have "step (WsMessage k payload) w = ws_close k ?w1"
    using assms(1,2) hm by (simp add: step_def onMessage_def uncaught_def)
  then show ?thesis using assms(2) by simp
qed

lemma error_keeps_registry: "activeConnections (step (WsError k msg) w) = activeConnections w"
  by (simp add: step_def onError_def)

lemma message_keeps_registry: "activeConnections (step (WsMessage k payload) w) = activeConnections w"
  by (simp add: step_def uncaught_alt onMessage_def split: option.splits)

lemma tick_keeps_registry: "activeConnections (step (IntervalFires h) w) = activeConnections w"
  by (auto simp: step_def uncaught_alt split: option.splits timer.splits)

text \<open>
  Claim C4. No event other than the disconnect request removes a key from the registry,
  and none other disables the reconnect flag of a connection. The events of a drop leave
  the registry exactly as it is, in every state: the \<^verbatim>\<open>close\<close> event of a socket, a
  heartbeat or keep-alive tick, the \<^verbatim>\<open>error\<close> event, and a frame, with opcode 7 or any
  other. The \<^verbatim>\<open>close\<close> event schedules a reconnect of the socket's connection with delay
  5000 exactly when its reconnect flag is set. A frame with opcode 7 on the open socket
  of a connection starts closing that socket and schedules nothing itself.
\<close>

theorem socket_drop_keeps_session:
  "(\<not> isDisconnectRequest e \<and> activeConnections w s \<noteq> None \<longrightarrow>
      activeConnections (step e w) s \<noteq> None)
   \<and> (\<not> isDisconnectRequest e \<and> shouldReconnect (heap w c) \<longrightarrow>
      shouldReconnect (heap (step e w) c))
   \<and> (\<not> crashed w \<and> readyState (sockets w k) \<noteq> CLOSED \<longrightarrow>
      activeConnections (step (WsClose k) w) = activeConnections w
      \<and> reconnects (trace (step (WsClose k) w)) =
          reconnects (trace w) @
            (if shouldReconnect (heap w (owner (sockets w k))) then [(owner (sockets w k), 5000)] else []))
   \<and> (\<not> crashed w \<and> readyState (sockets w k) = OPEN \<and> ws (heap w (owner (sockets w k))) = Some k
       \<and> field payload ''op'' = JNum 7 \<longrightarrow>
      readyState (sockets (step (WsMessage k payload) w) k) = CLOSING
      \<and> reconnects (trace (step (WsMessage k payload) w)) = reconnects (trace w))
   \<and> activeConnections (step (IntervalFires h) w) = activeConnections w
   \<and> activeConnections (step (WsError k msg) w) = activeConnections w
   \<and> activeConnections (step (WsMessage k payload) w) = activeConnections w"
proof (intro conjI impI)
  show "activeConnections (step (IntervalFires h) w) = activeConnections w"
    by (rule tick_keeps_registry)
  show "activeConnections (step (WsError k msg) w) = activeConnections w"
    by (rule error_keeps_registry)
  show "activeConnections (step (WsMessage k payload) w) = activeConnections w"
    by (rule message_keeps_registry)
  show "activeConnections (step e w) s \<noteq> None"
    if "\<not> isDisconnectRequest e \<and> activeConnections w s \<noteq> None"
    using that step_keeps_registry by blast
  show "shouldReconnect (heap (step e w) c)"
    if "\<not> isDisconnectRequest e \<and> shouldReconnect (heap w c)"
    using that step_keeps_flag by blast
  show "activeConnections (step (WsClose k) w) = activeConnections w"
    if "\<not> crashed w \<and> readyState (sockets w k) \<noteq> CLOSED"
    using that by (simp add: step_def)
  show "reconnects (trace (step (WsClose k) w)) =
          reconnects (trace w) @
            (if shouldReconnect (heap w (owner (sockets w k))) then [(owner (sockets w k), 5000)] else [])"
    if "\<not> crashed w \<and> readyState (sockets w k) \<noteq> CLOSED"
    using that by (simp add: step_def onClose_reconnects)
  show "readyState (sockets (step (WsMessage k payload) w) k) = CLOSING"
    if "\<not> crashed w \<and> readyState (sockets w k) = OPEN \<and> ws (heap w (owner (sockets w k))) = Some k
       \<and> field payload ''op'' = JNum 7"
    using that reconnect_request_closes by blast
  show "reconnects (trace (step (WsMessage k payload) w)) = reconnects (trace w)"
    if "\<not> crashed w \<and> readyState (sockets w k) = OPEN \<and> ws (heap w (owner (sockets w k))) = Some k
       \<and> field payload ''op'' = JNum 7"
    using that reconnect_request_closes by blast
qed

text \<open>The ready session \<^verbatim>\<open>abc\<close>: its socket closes, or the server asks for a reconnect.\<close>

theorem socket_drop_keeps_session_witness:
  "\<not> isDisconnectRequest (WsClose 1) \<and> activeConnections readyWorld (JStr ''abc'') \<noteq> None
   \<and> shouldReconnect (heap readyWorld 0)
   \<and> \<not> crashed readyWorld \<and> readyState (sockets readyWorld 1) = OPEN
   \<and> ws (heap readyWorld (owner (sockets readyWorld 1))) = Some 1
   \<and> activeConnections (step (WsClose 1) readyWorld) (JStr ''abc'') \<noteq> None
   \<and> shouldReconnect (heap (step (WsClose 1) readyWorld) 0)
   \<and> reconnects (trace (step (WsClose 1) readyWorld)) = reconnects (trace readyWorld) @ [(0, 5000)]
   \<and> readyState (sockets (step (WsMessage 1 (JObj [(''op'', JNum 7)])) readyWorld) 1) = CLOSING
   \<and> field (JObj [(''op'', JNum 7)]) ''op'' = JNum 7
   \<and> activeConnections (step (WsMessage 1 (JObj [(''op'', JNum 7)])) readyWorld) =
        activeConnections readyWorld"
proof -
  have h1: "\<not> isDisconnectRequest (WsClose 1)" by simp
  have h2: "activeConnections readyWorld (JStr ''abc'') \<noteq> None \<and> shouldReconnect (heap readyWorld 0)
      \<and> \<not> crashed readyWorld \<and> readyState (sockets readyWorld 1) = OPEN
      \<and> owner (sockets readyWorld 1) = 0
      \<and> ws (heap readyWorld (owner (sockets readyWorld 1))) = Some 1"
    by (simp add: eval_defs)
  have h3: "field (JObj [(''op'', JNum 7)]) ''op'' = JNum 7" by (simp add: field_def)
  note a = socket_drop_keeps_session[of "WsClose 1" readyWorld "JStr ''abc''" 0 1 "JObj [(''op'', JNum 7)]"
      0 "JStr []"]
  from a h1 h2 have c1: "activeConnections (step (WsClose 1) readyWorld) (JStr ''abc'') \<noteq> None
      \<and> shouldReconnect (heap (step (WsClose 1) readyWorld) 0)" by blast
  from a h2 have c2: "reconnects (trace (step (WsClose 1) readyWorld)) = reconnects (trace readyWorld) @ [(0, 5000)]"
    by simp
  from a h2 h3 have c3: "readyState (sockets (step (WsMessage 1 (JObj [(''op'', JNum 7)])) readyWorld) 1) = CLOSING"
    by blast
  from a have c4: "activeConnections (step (WsMessage 1 (JObj [(''op'', JNum 7)])) readyWorld) =
        activeConnections readyWorld"
    by blast
  from h1 h2 h3 c1 c2 c3 c4 show ?thesis by blast
qed

section \<open>Creating a session (C8)\<close>

lemma apiConnect_started:
  "truthy (field body ''token'') \<Longrightarrow>
   readyState (sockets (apiConnect body sid w) (Suc (fresh w))) = CONNECTING
   \<and> trace (apiConnect body sid w) = trace w @ [NewSocket (Suc (fresh w))]"
  by (simp add: apiConnect_def connect_def Let_def)

lemma registry_gain:
  assumes gain: "activeConnections (step e w) s = Some c" "activeConnections w s \<noteq> Some c"
  shows "\<exists>p sid. e = Continuation p \<and> promises w p = Fulfilled \<and> awaiting w p = Some (sid, c)
           \<and> s = JStr sid"
proof (cases "crashed w")
  case True
  with gain show ?thesis by (simp add: step_crashed)
next
  case False
  show ?thesis
  proof (cases e)
    case (Continuation p)
    with gain False show ?thesis
      by (auto simp: step_def resume_registry split: option.splits if_splits)
  next
    case (WsMessage k payload)
    with gain False show ?thesis
      by (auto simp: step_def uncaught_alt onMessage_def split: option.splits if_splits)
  next
    case (WsError k msg)
    with gain False show ?thesis
      by (auto simp: step_def onError_def split: if_splits)
  next
    case (ApiDisconnect body)
    with gain False show ?thesis
      by (auto simp: step_def apiDisconnect_def Let_def split: option.splits if_splits)
  next
    case (IntervalFires h)
    with gain False show ?thesis
      by (auto simp: step_def uncaught_alt split: option.splits timer.splits)
  next
    case (TimeoutFires h)
    with gain False show ?thesis
      by (auto simp: step_def split: option.splits)
  qed (use gain False in \<open>auto simp: step_def split: if_splits\<close>)
qed

lemma promise_fulfilled:
  assumes ful: "promises (step e w) p = Fulfilled" "promises w p \<noteq> Fulfilled"
  shows "\<exists>payload. e = WsMessage p payload \<and> field payload ''op'' = JNum 0
           \<and> field payload ''t'' = JStr ''READY''
           \<and> (readyState (sockets w p) = OPEN \<or> readyState (sockets w p) = CLOSING)"
proof (cases "crashed w")
  case True
  with ful show ?thesis by (simp add: step_crashed)
next
  case False
  show ?thesis
  proof (cases e)
    case (ApiConnect body sid)
    with ful False show ?thesis
      by (auto simp: step_def apiConnect_promises split: if_splits)
  next
    case (WsMessage k payload)
    with ful False show ?thesis
      by (auto simp: step_def uncaught_alt onMessage_def handleMessage_promises
          split: option.splits if_splits)
  next
    case (WsError k msg)
    with ful False show ?thesis
      by (auto simp: step_def onError_def split: if_splits)
  next
    case (IntervalFires h)
    with ful False show ?thesis
      by (auto simp: step_def uncaught_alt split: option.splits timer.splits)
  next
    case (TimeoutFires h)
    with ful False show ?thesis
      by (auto simp: step_def split: option.splits if_splits)
  qed (use ful False in \<open>auto simp: step_def split: if_splits\<close>)
qed

lemma onClose_trace:
  "trace (onClose k w) =
     trace (notifyClient (sessionId (heap w (owner (sockets w k)))) discord_disconnected
              (cleanup (owner (sockets w k)) w))
     @ (if shouldReconnect (heap w (owner (sockets w k)))
        then [SetTimeout (fresh w) (owner (sockets w k)) 5000] else [])"
  by (simp add: onClose_def Let_def cleanup_heap)

lemma close_after_error:
  "trace (step (WsClose k) (reject k msg w)) = trace (step (WsClose k) w)"
  by (simp add: step_def onClose_trace notifyClient_trace cleanup_trace cleanup_heap
      split: option.splits)
text \<open>A closed socket stays closed, and handles below the counter are never allocated again.\<close>

lemma ws_close_closed:
  "readyState (sockets w k) = CLOSED \<Longrightarrow> readyState (sockets (ws_close k' w) k) = CLOSED"
  by (auto simp: ws_close_def)

lemma startKeepAlive_fresh [simp]: "fresh (startKeepAlive c w) = Suc (fresh w)"
  by (simp add: startKeepAlive_def Let_def split_beta split: option.splits)

lemma cleanup_closed:
  "readyState (sockets w k) = CLOSED \<and> k < fresh w \<Longrightarrow>
   readyState (sockets (cleanup c w) k) = CLOSED \<and> k < fresh (cleanup c w)"
  by simp

lemma disconnect_stays_closed:
  "readyState (sockets w k) = CLOSED \<and> k < fresh w \<Longrightarrow>
   readyState (sockets (disconnect c w) k) = CLOSED \<and> k < fresh (disconnect c w)"
  by (simp add: disconnect_sockets ws_close_def split: option.splits)

lemma handleMessage_stays_closed:
  "readyState (sockets w k) = CLOSED \<and> k < fresh w \<Longrightarrow>
   readyState (sockets (snd (handleMessage c p payload w)) k) = CLOSED
   \<and> k < fresh (snd (handleMessage c p payload w))"
  by (simp add: handleMessage_def Let_def split_beta ws_close_def split: option.splits)

lemma heartbeatTick_stays_closed:
  "readyState (sockets w k) = CLOSED \<and> k < fresh w \<Longrightarrow>
   readyState (sockets (snd (heartbeatTick c w)) k) = CLOSED \<and> k < fresh (snd (heartbeatTick c w))"
  by (simp add: heartbeatTick_def Let_def ws_close_def split: option.splits)

lemma keepAliveTick_stays_closed:
  "readyState (sockets w k) = CLOSED \<and> k < fresh w \<Longrightarrow>
   readyState (sockets (snd (keepAliveTick c w)) k) = CLOSED \<and> k < fresh (snd (keepAliveTick c w))"
  by (simp add: keepAliveTick_def split: option.splits sum.splits)

lemma onClose_stays_closed:
  "readyState (sockets w k) = CLOSED \<and> k < fresh w \<Longrightarrow>
   readyState (sockets (onClose k' w) k) = CLOSED \<and> k < fresh (onClose k' w)"
  by (simp add: onClose_def Let_def)

lemma step_stays_closed:
  assumes "readyState (sockets w k) = CLOSED \<and> k < fresh w"
  shows "readyState (sockets (step e w) k) = CLOSED \<and> k < fresh (step e w)"
proof (cases "crashed w")
  case True
  with assms show ?thesis by (simp add: step_crashed)
next
  case False
  show ?thesis
  proof (cases e)
    case (ApiConnect body sid)
    with assms False show ?thesis
      by (simp add: step_def apiConnect_def connect_def Let_def)
  next
    case (ApiUpdateStatus body)
    with assms False show ?thesis
      by (simp add: step_def apiUpdateStatus_def Let_def case_result split: option.splits)
  next
    case (ApiDisconnect body)
    with assms False disconnect_stays_closed[of w k] show ?thesis
      by (simp add: step_def apiDisconnect_def Let_def split: option.splits)
  next
    case (ApiStatus sid)
    with assms False show ?thesis
      by (simp add: step_def apiStatus_def split: option.splits)
  next
    case (WsOpen k')
    with assms False show ?thesis
      by (auto simp: step_def)
  next
    case (WsMessage k' payload)
    with assms False handleMessage_stays_closed[of w k] show ?thesis
      by (simp add: step_def uncaught_alt onMessage_def split: option.splits)
  next
    case (WsError k' msg)
    with assms False show ?thesis
      by (simp add: step_def onError_def)
  next
    case (WsClose k')
    with assms False onClose_stays_closed[of "setState k' CLOSED w" k k'] show ?thesis
      by (simp add: step_def)
  next
    case (Continuation p)
    with assms False show ?thesis
      by (simp add: step_def resume_def split: option.splits promise.splits)
  next
    case (IntervalFires h)
    with assms False heartbeatTick_stays_closed[of w k] keepAliveTick_stays_closed[of w k]
    show ?thesis
      by (simp add: step_def uncaught_alt split: option.splits timer.splits)
  next
    case (TimeoutFires h)
    with assms False show ?thesis
      by (simp add: step_def connect_def Let_def split: option.splits)
  next
    case ClientConnect
    with assms False show ?thesis
      by (simp add: step_def clientConnect_def)
  next
    case (ClientMessage cw data)
    with assms False show ?thesis
      by (simp add: step_def clientMessage_def Let_def split: option.splits)
  next
    case (ClientClose cw)
    with assms False show ?thesis
      by (simp add: step_def clientClose_def Let_def)
  qed
qed

text \<open>
  Nothing settles the promise of a closed socket: the handlers that call its \<^verbatim>\<open>resolve\<close>
  and \<^verbatim>\<open>reject\<close> are that socket's own, and a closed socket raises no event. A request
  that awaits such a promise, still pending, stays suspended.
\<close>

lemma step_stays_suspended:
  assumes "readyState (sockets w k) = CLOSED \<and> k < fresh w"
    and "promises w k = Pending \<and> awaiting w k = Some x"
  shows "promises (step e w) k = Pending \<and> awaiting (step e w) k = Some x"
proof (cases "crashed w")
  case True
  with assms show ?thesis by (simp add: step_crashed)
next
  case False
  show ?thesis
  proof (cases e)
    case (ApiConnect body sid)
    with assms False show ?thesis
      by (simp add: step_def apiConnect_awaiting apiConnect_promises)
  next
    case (WsMessage k' payload)
    with assms False show ?thesis
      by (auto simp: step_def uncaught_alt onMessage_def handleMessage_promises split: option.splits)
  next
    case (WsError k' msg)
    with assms False show ?thesis
      by (auto simp: step_def onError_def)
  next
    case (Continuation p)
    with assms False show ?thesis
      by (auto simp: step_def resume_def split: option.splits promise.splits)
  next
    case (IntervalFires h)
    with assms False show ?thesis
      by (simp add: step_def uncaught_alt split: option.splits timer.splits)
  next
    case (TimeoutFires h)
    with assms False show ?thesis
      by (simp add: step_def split: option.splits)
  qed (use assms False in \<open>simp_all add: step_def\<close>)
qed

lemma run_stays_suspended:
  "readyState (sockets w k) = CLOSED \<and> k < fresh w \<Longrightarrow>
   promises w k = Pending \<and> awaiting w k = Some x \<Longrightarrow>
   promises (run es w) k = Pending \<and> awaiting (run es w) k = Some x"
proof (induction es arbitrary: w)
  case Nil
  then show ?case by simp
next
  case (Cons e es)
  from step_stays_closed[OF Cons.prems(1)] step_stays_suspended[OF Cons.prems]
  show ?case by (simp add: Cons.IH)
qed
lemma awaiting_gain:
  assumes gain: "awaiting (step e w) q = Some x" "awaiting w q \<noteq> Some x"
  shows "\<exists>body sid. e = ApiConnect body sid \<and> truthy (field body ''token'')
           \<and> q = Suc (fresh w) \<and> x = (sid, fresh w)"
proof (cases "crashed w")
  case True
  with gain show ?thesis by (simp add: step_crashed)
next
  case False
  show ?thesis
  proof (cases e)
    case (ApiConnect body sid)
    with gain False show ?thesis
      by (auto simp: step_def apiConnect_awaiting split: if_splits)
  next
    case (WsMessage k payload)
    with gain False show ?thesis
      by (auto simp: step_def uncaught_alt onMessage_def split: option.splits if_splits)
  next
    case (WsError k msg)
    with gain False show ?thesis
      by (auto simp: step_def onError_def split: if_splits)
  next
    case (Continuation p)
    with gain False show ?thesis
      by (auto simp: step_def resume_def split: option.splits promise.splits if_splits)
  next
    case (IntervalFires h)
    with gain False show ?thesis
      by (auto simp: step_def uncaught_alt split: option.splits timer.splits)
  next
    case (TimeoutFires h)
    with gain False show ?thesis
      by (auto simp: step_def split: option.splits)
  qed (use gain False in \<open>auto simp: step_def split: if_splits\<close>)
qed

text \<open>
  Claim C8, amended. A connect request without a token is answered 400 and nothing is
  created. With a token it creates a connection and a connecting socket and suspends on
  the pending promise of that socket, without touching the registry; a request is only
  ever suspended on the promise of the socket its own \<^verbatim>\<open>connect()\<close> call made. If that
  socket raises \<^verbatim>\<open>error\<close> while the promise is still pending (the handshake has not
  reached \<^verbatim>\<open>READY\<close>), the promise is rejected and the request, when it continues, is
  answered 500 with \<^verbatim>\<open>Failed to connect to Discord\<close> and the error's message,
  whether or not the socket's \<^verbatim>\<open>close\<close> event comes in between; the registry is
  unchanged. An event gives a registry key a connection it did not have only if it is
  the continuation of a request for that key and connection whose promise is
  fulfilled, and a promise is fulfilled only by a \<^verbatim>\<open>READY\<close> dispatch on its own socket.
\<close>

theorem connect_error_not_stored:
  "(\<not> truthy (field body ''token'') \<longrightarrow>
      apiConnect body sid w = respond 400 (JObj [(''error'', JStr ''Token is required'')]) w)
   \<and> (truthy (field body ''token'') \<longrightarrow>
        awaiting (apiConnect body sid w) (Suc (fresh w)) = Some (sid, fresh w)
        \<and> promises (apiConnect body sid w) (Suc (fresh w)) = Pending
        \<and> readyState (sockets (apiConnect body sid w) (Suc (fresh w))) = CONNECTING
        \<and> activeConnections (apiConnect body sid w) = activeConnections w
        \<and> trace (apiConnect body sid w) = trace w @ [NewSocket (Suc (fresh w))])
   \<and> (awaiting (step e w) q = Some x \<and> awaiting w q \<noteq> Some x \<longrightarrow>
        (\<exists>body' sid'. e = ApiConnect body' sid' \<and> truthy (field body' ''token'')
            \<and> q = Suc (fresh w) \<and> x = (sid', fresh w)))
   \<and> (\<not> crashed w \<and> readyState (sockets w k) \<noteq> CLOSED \<and> promises w k = Pending
       \<and> awaiting w k = Some (sid, c) \<longrightarrow>
        run [WsError k msg, Continuation k] w =
          w\<lparr>promises := (promises w)(k := Rejected msg),
            awaiting := (awaiting w)(k := None),
            trace := trace w @ [Respond 500 (JObj [(''error'', JStr ''Failed to connect to Discord''),
                                                   (''message'', msg)])]\<rparr>
        \<and> trace (run [WsError k msg, WsClose k, Continuation k] w) =
            trace (step (WsClose k) w)
            @ [Respond 500 (JObj [(''error'', JStr ''Failed to connect to Discord''), (''message'', msg)])]
        \<and> activeConnections (run [WsError k msg, WsClose k, Continuation k] w) = activeConnections w)
   \<and> (activeConnections (step e w) s = Some c' \<and> activeConnections w s \<noteq> Some c' \<longrightarrow>
        (\<exists>p sid'. e = Continuation p \<and> promises w p = Fulfilled \<and> awaiting w p = Some (sid', c')
            \<and> s = JStr sid'))
   \<and> (promises (step e w) q = Fulfilled \<and> promises w q \<noteq> Fulfilled \<longrightarrow>
        (\<exists>payload. e = WsMessage q payload \<and> field payload ''op'' = JNum 0
            \<and> field payload ''t'' = JStr ''READY''
            \<and> (readyState (sockets w q) = OPEN \<or> readyState (sockets w q) = CLOSING)))"
proof (intro conjI impI)
  show "apiConnect body sid w = respond 400 (JObj [(''error'', JStr ''Token is required'')]) w"
    if "\<not> truthy (field body ''token'')"
    using that by (simp add: apiConnect_def)
  show "\<exists>body' sid'. e = ApiConnect body' sid' \<and> truthy (field body' ''token'')
            \<and> q = Suc (fresh w) \<and> x = (sid', fresh w)"
    if "awaiting (step e w) q = Some x \<and> awaiting w q \<noteq> Some x"
    using that awaiting_gain[of e w q x] by blast
  show "\<exists>p sid'. e = Continuation p \<and> promises w p = Fulfilled \<and> awaiting w p = Some (sid', c')
            \<and> s = JStr sid'"
    if "activeConnections (step e w) s = Some c' \<and> activeConnections w s \<noteq> Some c'"
    using that registry_gain[of e w s c'] by blast
  show "\<exists>payload. e = WsMessage q payload \<and> field payload ''op'' = JNum 0
            \<and> field payload ''t'' = JStr ''READY''
            \<and> (readyState (sockets w q) = OPEN \<or> readyState (sockets w q) = CLOSING)"
    if "promises (step e w) q = Fulfilled \<and> promises w q \<noteq> Fulfilled"
    using that promise_fulfilled[of e w q] by blast
next
  assume t: "truthy (field body ''token'')"
  show "awaiting (apiConnect body sid w) (Suc (fresh w)) = Some (sid, fresh w)"
    using t by (simp add: apiConnect_awaiting)
  show "promises (apiConnect body sid w) (Suc (fresh w)) = Pending"
    using t by (simp add: apiConnect_promises)
  show "readyState (sockets (apiConnect body sid w) (Suc (fresh w))) = CONNECTING"
    using t apiConnect_started by blast
  show "activeConnections (apiConnect body sid w) = activeConnections w" by simp
  show "trace (apiConnect body sid w) = trace w @ [NewSocket (Suc (fresh w))]"
    using t apiConnect_started by blast
next
  assume h: "\<not> crashed w \<and> readyState (sockets w k) \<noteq> CLOSED \<and> promises w k = Pending
       \<and> awaiting w k = Some (sid, c)"
  then have e: "step (WsError k msg) w = reject k msg w"
    by (simp add: step_def onError_def)
  show "run [WsError k msg, Continuation k] w =
          w\<lparr>promises := (promises w)(k := Rejected msg),
            awaiting := (awaiting w)(k := None),
            trace := trace w @ [Respond 500 (JObj [(''error'', JStr ''Failed to connect to Discord''),
                                                   (''message'', msg)])]\<rparr>"
    using h by (simp add: step_def onError_def reject_def resume_def respond_def emit_def)
  let ?w2 = "step (WsClose k) (reject k msg w)"
  have w2: "\<not> crashed ?w2" "awaiting ?w2 k = Some (sid, c)" "promises ?w2 k = Rejected msg"
    "activeConnections ?w2 = activeConnections w"
    using h by (simp_all add: step_def)
  have tr: "trace ?w2 = trace (step (WsClose k) w)"
    by (rule close_after_error)
  have r: "run [WsError k msg, WsClose k, Continuation k] w = resume k ?w2"
    using w2(1) by (simp add: e step_def[of "Continuation k"])
  show "trace (run [WsError k msg, WsClose k, Continuation k] w) =
            trace (step (WsClose k) w)
            @ [Respond 500 (JObj [(''error'', JStr ''Failed to connect to Discord''), (''message'', msg)])]"
    unfolding r using w2(2,3) tr by (simp add: resume_def)
  show "activeConnections (run [WsError k msg, WsClose k, Continuation k] w) = activeConnections w"
    unfolding r using w2(2,3,4) by (simp add: resume_registry)
qed
text \<open>
  A request without token; a request with token \<^verbatim>\<open>tok\<close>, suspended on the promise of its
  socket 1; that socket errors while connecting, with and without its \<^verbatim>\<open>close\<close> before
  the request continues; the handshake reaches \<^verbatim>\<open>READY\<close>, which fulfils promise 1, and
  the continuation stores session \<^verbatim>\<open>abc\<close>.
\<close>

theorem connect_error_not_stored_witness:
  "\<not> truthy (field (JObj []) ''token'')
   \<and> trace (apiConnect (JObj []) ''abc'' (init Plain scenarioParseInt)) =
       [Respond 400 (JObj [(''error'', JStr ''Token is required'')])]
   \<and> truthy (field (JObj [(''token'', JStr ''tok'')]) ''token'')
   \<and> awaiting (apiConnect (JObj [(''token'', JStr ''tok'')]) ''abc'' (init Plain scenarioParseInt))
        (Suc (fresh (init Plain scenarioParseInt))) = Some (''abc'', fresh (init Plain scenarioParseInt))
   \<and> awaiting (step (ApiConnect (JObj [(''token'', JStr ''tok'')]) ''abc'') (init Plain scenarioParseInt)) 1
        = Some (''abc'', 0)
   \<and> awaiting (init Plain scenarioParseInt) 1 \<noteq> Some (''abc'', 0)
   \<and> (\<exists>body' sid'. ApiConnect (JObj [(''token'', JStr ''tok'')]) ''abc'' = ApiConnect body' sid'
          \<and> truthy (field body' ''token'') \<and> 1 = Suc (fresh (init Plain scenarioParseInt))
          \<and> (''abc'', 0) = (sid', fresh (init Plain scenarioParseInt)))
   \<and> \<not> crashed connectingWorld \<and> readyState (sockets connectingWorld 1) \<noteq> CLOSED
   \<and> promises connectingWorld 1 = Pending \<and> awaiting connectingWorld 1 = Some (''abc'', 0)
   \<and> trace (run [WsError 1 (JStr ''ECONNREFUSED''), Continuation 1] connectingWorld) =
        trace connectingWorld @ [Respond 500 (JObj [(''error'', JStr ''Failed to connect to Discord''),
                                                    (''message'', JStr ''ECONNREFUSED'')])]
   \<and> trace (run [WsError 1 (JStr ''ECONNREFUSED''), WsClose 1, Continuation 1] connectingWorld) =
        trace (step (WsClose 1) connectingWorld)
        @ [Respond 500 (JObj [(''error'', JStr ''Failed to connect to Discord''),
                              (''message'', JStr ''ECONNREFUSED'')])]
   \<and> activeConnections (run [WsError 1 (JStr ''ECONNREFUSED''), WsClose 1, Continuation 1] connectingWorld)
        = activeConnections connectingWorld
   \<and> activeConnections (step (Continuation 1) fulfilledWorld) (JStr ''abc'') = Some 0
   \<and> activeConnections fulfilledWorld (JStr ''abc'') \<noteq> Some 0
   \<and> (\<exists>p sid'. Continuation 1 = Continuation p \<and> promises fulfilledWorld p = Fulfilled
          \<and> awaiting fulfilledWorld p = Some (sid', 0) \<and> JStr ''abc'' = JStr sid')
   \<and> promises (step (WsMessage 1 (readyFrame 1)) identifiedWorld) 1 = Fulfilled
   \<and> promises identifiedWorld 1 \<noteq> Fulfilled
   \<and> (\<exists>payload. WsMessage 1 (readyFrame 1) = WsMessage 1 payload \<and> field payload ''op'' = JNum 0
          \<and> field payload ''t'' = JStr ''READY''
          \<and> (readyState (sockets identifiedWorld 1) = OPEN \<or> readyState (sockets identifiedWorld 1) = CLOSING))"
proof -
  let ?i = "init Plain scenarioParseInt"
  let ?b = "JObj [(''token'', JStr ''tok'')]"
  let ?m = "JStr ''ECONNREFUSED''"
  note a = connect_error_not_stored[where body = "JObj []" and sid = "''abc''" and w = ?i
      and e = "ApiConnect ?b ''abc''" and q = 1 and x = "(''abc'', 0)" and k = 1 and c = 0 and msg = ?m
      and s = "JStr ''abc''" and c' = 0]
  note b = connect_error_not_stored[where body = ?b and sid = "''abc''" and w = ?i
      and e = "ApiConnect ?b ''abc''" and q = 1 and x = "(''abc'', 0)" and k = 1 and c = 0 and msg = ?m
      and s = "JStr ''abc''" and c' = 0]
  note c = connect_error_not_stored[where body = ?b and sid = "''abc''" and w = connectingWorld
      and e = "ApiConnect ?b ''abc''" and q = 1 and x = "(''abc'', 0)" and k = 1 and c = 0 and msg = ?m
      and s = "JStr ''abc''" and c' = 0]
  note d = connect_error_not_stored[where body = ?b and sid = "''abc''" and w = fulfilledWorld
      and e = "Continuation 1" and q = 1 and x = "(''abc'', 0)" and k = 1 and c = 0 and msg = ?m
      and s = "JStr ''abc''" and c' = 0]
  note f = connect_error_not_stored[where body = ?b and sid = "''abc''" and w = identifiedWorld
      and e = "WsMessage 1 (readyFrame 1)" and q = 1 and x = "(''abc'', 0)" and k = 1 and c = 0 and msg = ?m
      and s = "JStr ''abc''" and c' = 0]
  have h1: "\<not> truthy (field (JObj []) ''token'')" "truthy (field ?b ''token'')"
    by (simp_all add: field_def)
  have h2: "awaiting (step (ApiConnect ?b ''abc'') ?i) 1 = Some (''abc'', 0)
      \<and> awaiting ?i 1 \<noteq> Some (''abc'', 0)"
    by (simp add: eval_defs)
  have h3: "\<not> crashed connectingWorld \<and> readyState (sockets connectingWorld 1) \<noteq> CLOSED
      \<and> promises connectingWorld 1 = Pending \<and> awaiting connectingWorld 1 = Some (''abc'', 0)"
    by (simp add: eval_defs)
  have h4: "activeConnections (step (Continuation 1) fulfilledWorld) (JStr ''abc'') = Some 0
      \<and> activeConnections fulfilledWorld (JStr ''abc'') \<noteq> Some 0"
    by (simp add: eval_defs)
  have h5: "promises (step (WsMessage 1 (readyFrame 1)) identifiedWorld) 1 = Fulfilled
      \<and> promises identifiedWorld 1 \<noteq> Fulfilled"
    by (simp add: eval_defs)
  from a h1 have "apiConnect (JObj []) ''abc'' ?i = respond 400 (JObj [(''error'', JStr ''Token is required'')]) ?i"
    by blast
  then have c1: "trace (apiConnect (JObj []) ''abc'' ?i) = [Respond 400 (JObj [(''error'', JStr ''Token is required'')])]"
    by (simp add: init_def)
  from b h1 have c2: "awaiting (apiConnect ?b ''abc'' ?i) (Suc (fresh ?i)) = Some (''abc'', fresh ?i)"
    by blast
  from b h2 have c3: "\<exists>body' sid'. ApiConnect ?b ''abc'' = ApiConnect body' sid'
          \<and> truthy (field body' ''token'') \<and> 1 = Suc (fresh ?i) \<and> (''abc'', 0) = (sid', fresh ?i)"
    by blast
  from c h3 have e: "run [WsError 1 ?m, Continuation 1] connectingWorld =
      connectingWorld\<lparr>promises := (promises connectingWorld)(1 := Rejected ?m),
            awaiting := (awaiting connectingWorld)(1 := None),
            trace := trace connectingWorld @ [Respond 500 (JObj [(''error'', JStr ''Failed to connect to Discord''),
                                                   (''message'', ?m)])]\<rparr>"
    by blast
  have c4: "trace (run [WsError 1 ?m, Continuation 1] connectingWorld) =
        trace connectingWorld @ [Respond 500 (JObj [(''error'', JStr ''Failed to connect to Discord''),
                                                    (''message'', ?m)])]"
    by (subst e) simp
  from c h3 have c5: "trace (run [WsError 1 ?m, WsClose 1, Continuation 1] connectingWorld) =
        trace (step (WsClose 1) connectingWorld)
        @ [Respond 500 (JObj [(''error'', JStr ''Failed to connect to Discord''), (''message'', ?m)])]
      \<and> activeConnections (run [WsError 1 ?m, WsClose 1, Continuation 1] connectingWorld)
        = activeConnections connectingWorld"
    by blast
  from d h4 have c6: "\<exists>p sid'. Continuation 1 = Continuation p \<and> promises fulfilledWorld p = Fulfilled
          \<and> awaiting fulfilledWorld p = Some (sid', 0) \<and> JStr ''abc'' = JStr sid'"
    by blast
  from f h5 have c7: "\<exists>payload. WsMessage 1 (readyFrame 1) = WsMessage 1 payload \<and> field payload ''op'' = JNum 0
          \<and> field payload ''t'' = JStr ''READY''
          \<and> (readyState (sockets identifiedWorld 1) = OPEN \<or> readyState (sockets identifiedWorld 1) = CLOSING)"
    by blast
  from h1 h2 h3 h4 h5 c1 c2 c3 c4 c5 c6 c7 show ?thesis by blast
qed

text \<open>
  Claim C8 as stated fails. The first socket of the request is closed before \<^verbatim>\<open>READY\<close>
  without an \<^verbatim>\<open>error\<close> event, which settles nothing; the retry's socket 4 errors before
  its handshake and closes. The rejection is that of promise 4, which nobody awaits:
  the trace holds no response, the request is still suspended on the pending promise 1,
  and its continuation has nothing to do.
\<close>

theorem connect_retry_error_not_surfaced:
  "ws (heap retryWorld 0) = Some 4 \<and> readyState (sockets retryWorld 4) = CLOSED
   \<and> promises retryWorld 4 = Rejected (JStr ''ECONNREFUSED'')
   \<and> awaiting retryWorld 4 = None
   \<and> awaiting retryWorld 1 = Some (''abc'', 0) \<and> promises retryWorld 1 = Pending
   \<and> trace retryWorld =
       [NewSocket 1, SetInterval 2 (HeartbeatTimer 0) (JNum 30000), Send 1 (identify (JStr ''tok'')),
        ClearInterval 2, SetTimeout 3 0 5000, NewSocket 4, SetTimeout 5 0 5000]
   \<and> activeConnections retryWorld (JStr ''abc'') = None
   \<and> \<not> crashed retryWorld
   \<and> step (Continuation 1) retryWorld = retryWorld"
  by (simp add: eval_defs)

text \<open>
  The theorem of C8 speaks of the socket the request itself made. The \<^verbatim>\<open>error\<close> handler
  only rejects the promise of its own \<^verbatim>\<open>connect()\<close> call, so an \<^verbatim>\<open>error\<close> on a socket whose
  promise no request awaits answers nothing; and nothing settles the promise of a
  closed socket, so a request whose socket has closed with the promise still pending
  stays suspended whatever happens afterwards.
\<close>

lemma closed_request_stays_suspended:
  "trace (step (WsError k msg) w) = trace w
   \<and> (awaiting w k = None \<longrightarrow> step (Continuation k) w = w)
   \<and> (readyState (sockets w k) = CLOSED \<and> k < fresh w \<and> promises w k = Pending
       \<and> awaiting w k = Some (sid, c) \<longrightarrow>
        promises (run es w) k = Pending \<and> awaiting (run es w) k = Some (sid, c)
        \<and> step (Continuation k) (run es w) = run es w)"
proof (intro conjI impI)
  show "trace (step (WsError k msg) w) = trace w"
    by (simp add: step_def onError_def)
  show "step (Continuation k) w = w" if "awaiting w k = None"
    using that by (simp add: step_def resume_def)
next
  assume h: "readyState (sockets w k) = CLOSED \<and> k < fresh w \<and> promises w k = Pending
       \<and> awaiting w k = Some (sid, c)"
  then have s: "promises (run es w) k = Pending \<and> awaiting (run es w) k = Some (sid, c)"
    using run_stays_suspended[of w k "(sid, c)" es] by blast
  show "promises (run es w) k = Pending" using s by blast
  show "awaiting (run es w) k = Some (sid, c)" using s by blast
  show "step (Continuation k) (run es w) = run es w"
    using s by (simp add: step_def resume_def)
qed

section \<open>Removing a session (C7)\<close>

lemma apiDisconnect_known:
  assumes "truthy (field body ''sessionId'')" "activeConnections w (field body ''sessionId'') = Some c"
  shows "apiDisconnect body w =
           respond 200 (JObj [(''success'', JBool True), (''message'', JStr ''Disconnected successfully'')])
             ((disconnect c w)\<lparr>activeConnections := (activeConnections w)(field body ''sessionId'' := None)\<rparr>)"
  using assms by (simp add: apiDisconnect_def Let_def)

text \<open>
  Claim C7, amended. A disconnect request whose \<open>sessionId\<close> is missing or empty is
  answered 400; one whose non-empty \<open>sessionId\<close> the registry does not hold is
  answered 404; in both cases nothing but the response happens: the registry and
  every connection are unchanged. For a held identifier the handler first runs
  \<^verbatim>\<open>disconnect()\<close> on the connection, then deletes the entry, then answers 200: what
  it does, in order, is \<^verbatim>\<open>close()\<close> on the socket if it is open or connecting,
  \<^verbatim>\<open>clearInterval\<close> on the heartbeat and keep-alive timers the connection holds, the
  notification, and the response. In the state it returns the entry is gone; on the
  connection reconnect is disabled, the current activity and both timer handles are
  \<^verbatim>\<open>null\<close>, and every other connection is as before; the two intervals no longer run;
  and the connection's socket, if it has one, is neither open nor connecting.
\<close>

theorem disconnect_request:
  "(\<not> truthy (field body ''sessionId'') \<longrightarrow>
      apiDisconnect body w =
        w\<lparr>trace := trace w @ [Respond 400 (JObj [(''error'', JStr ''Session ID is required'')])]\<rparr>)
   \<and> (truthy (field body ''sessionId'') \<and> activeConnections w (field body ''sessionId'') = None \<longrightarrow>
      apiDisconnect body w =
        w\<lparr>trace := trace w @ [Respond 404 (JObj [(''error'', JStr ''Session not found'')])]\<rparr>)
   \<and> (truthy (field body ''sessionId'') \<and> activeConnections w (field body ''sessionId'') = Some c \<longrightarrow>
      apiDisconnect body w =
        respond 200 (JObj [(''success'', JBool True), (''message'', JStr ''Disconnected successfully'')])
          ((disconnect c w)\<lparr>activeConnections := (activeConnections w)(field body ''sessionId'' := None)\<rparr>)
      \<and> activeConnections (apiDisconnect body w) (field body ''sessionId'') = None
      \<and> \<not> shouldReconnect (heap (apiDisconnect body w) c)
      \<and> heartbeatTask (heap (apiDisconnect body w) c) = None
      \<and> keepAliveTask (heap (apiDisconnect body w) c) = None
      \<and> (\<forall>k. ws (heap (apiDisconnect body w) c) = Some k \<longrightarrow>
            readyState (sockets (apiDisconnect body w) k) \<noteq> OPEN
            \<and> readyState (sockets (apiDisconnect body w) k) \<noteq> CONNECTING)
      \<and> activeConnections (apiDisconnect body w) = (activeConnections w)(field body ''sessionId'' := None)
      \<and> heap (apiDisconnect body w) =
          (heap w)(c := (heap w c)\<lparr>shouldReconnect := False, currentActivity := JNull,
                                    heartbeatTask := None, keepAliveTask := None\<rparr>)
      \<and> intervals (apiDisconnect body w) h =
          (if heartbeatTask (heap w c) = Some h \<or> keepAliveTask (heap w c) = Some h then None
           else intervals w h)
      \<and> trace (apiDisconnect body w) =
          trace w
          @ (case ws (heap w c) of
               None \<Rightarrow> []
             | Some k \<Rightarrow>
                 (if readyState (sockets w k) = OPEN \<or> readyState (sockets w k) = CONNECTING
                  then [Close k] else []))
          @ (case heartbeatTask (heap w c) of Some h \<Rightarrow> [ClearInterval h] | None \<Rightarrow> [])
          @ (case keepAliveTask (heap w c) of Some h \<Rightarrow> [ClearInterval h] | None \<Rightarrow> [])
          @ (if variant w = WithHub
             then (case clientWebSockets w (JStr (sessionId (heap w c))) of
                     None \<Rightarrow> []
                   | Some cw \<Rightarrow> (if clientState (clients w cw) = OPEN then [ClientSend cw session_ended] else []))
             else [])
          @ [Respond 200 (JObj [(''success'', JBool True), (''message'', JStr ''Disconnected successfully'')])])"
proof (intro conjI impI)
  show "apiDisconnect body w =
        w\<lparr>trace := trace w @ [Respond 400 (JObj [(''error'', JStr ''Session ID is required'')])]\<rparr>"
    if "\<not> truthy (field body ''sessionId'')"
    using that by (simp add: apiDisconnect_def respond_def emit_def)
  show "apiDisconnect body w =
        w\<lparr>trace := trace w @ [Respond 404 (JObj [(''error'', JStr ''Session not found'')])]\<rparr>"
    if "truthy (field body ''sessionId'') \<and> activeConnections w (field body ''sessionId'') = None"
    using that by (simp add: apiDisconnect_def respond_def emit_def)
next
  assume h: "truthy (field body ''sessionId'') \<and> activeConnections w (field body ''sessionId'') = Some c"
  then have eq: "apiDisconnect body w =
        respond 200 (JObj [(''success'', JBool True), (''message'', JStr ''Disconnected successfully'')])
          ((disconnect c w)\<lparr>activeConnections := (activeConnections w)(field body ''sessionId'' := None)\<rparr>)"
    using apiDisconnect_known by blast
  show "apiDisconnect body w =
        respond 200 (JObj [(''success'', JBool True), (''message'', JStr ''Disconnected successfully'')])
          ((disconnect c w)\<lparr>activeConnections := (activeConnections w)(field body ''sessionId'' := None)\<rparr>)"
    by (rule eq)
  show "activeConnections (apiDisconnect body w) (field body ''sessionId'') = None"
    by (simp add: eq)
  show "\<not> shouldReconnect (heap (apiDisconnect body w) c)"
    by (simp add: eq disconnect_heap)
  show "heartbeatTask (heap (apiDisconnect body w) c) = None"
    by (simp add: eq disconnect_heap)
  show "keepAliveTask (heap (apiDisconnect body w) c) = None"
    by (simp add: eq disconnect_heap)
  show "\<forall>k. ws (heap (apiDisconnect body w) c) = Some k \<longrightarrow>
            readyState (sockets (apiDisconnect body w) k) \<noteq> OPEN
            \<and> readyState (sockets (apiDisconnect body w) k) \<noteq> CONNECTING"
    using disconnect_closed[of c w] by (simp add: eq)
  show "activeConnections (apiDisconnect body w) = (activeConnections w)(field body ''sessionId'' := None)"
    by (simp add: eq)
  show "heap (apiDisconnect body w) =
          (heap w)(c := (heap w c)\<lparr>shouldReconnect := False, currentActivity := JNull,
                                    heartbeatTask := None, keepAliveTask := None\<rparr>)"
    by (simp add: eq disconnect_heap)
  show "intervals (apiDisconnect body w) h =
          (if heartbeatTask (heap w c) = Some h \<or> keepAliveTask (heap w c) = Some h then None
           else intervals w h)"
    by (simp add: eq disconnect_intervals)
  show "trace (apiDisconnect body w) =
          trace w
          @ (case ws (heap w c) of
               None \<Rightarrow> []
             | Some k \<Rightarrow>
                 (if readyState (sockets w k) = OPEN \<or> readyState (sockets w k) = CONNECTING
                  then [Close k] else []))
          @ (case heartbeatTask (heap w c) of Some h \<Rightarrow> [ClearInterval h] | None \<Rightarrow> [])
          @ (case keepAliveTask (heap w c) of Some h \<Rightarrow> [ClearInterval h] | None \<Rightarrow> [])
          @ (if variant w = WithHub
             then (case clientWebSockets w (JStr (sessionId (heap w c))) of
                     None \<Rightarrow> []
                   | Some cw \<Rightarrow> (if clientState (clients w cw) = OPEN then [ClientSend cw session_ended] else []))
             else [])
          @ [Respond 200 (JObj [(''success'', JBool True), (''message'', JStr ''Disconnected successfully'')])]"
    by (simp add: eq disconnect_trace)
qed

text \<open>
  On the ready session: no identifier, the unknown \<^verbatim>\<open>zzz\<close>, and the known \<^verbatim>\<open>abc\<close>, whose
  socket 1 is closed and whose heartbeat timer 2 is cleared before the answer.
\<close>

theorem disconnect_request_witness:
  "\<not> truthy (field (JObj []) ''sessionId'')
   \<and> apiDisconnect (JObj []) readyWorld =
       readyWorld\<lparr>trace := trace readyWorld @ [Respond 400 (JObj [(''error'', JStr ''Session ID is required'')])]\<rparr>
   \<and> truthy (field (JObj [(''sessionId'', JStr ''zzz'')]) ''sessionId'')
   \<and> activeConnections readyWorld (field (JObj [(''sessionId'', JStr ''zzz'')]) ''sessionId'') = None
   \<and> apiDisconnect (JObj [(''sessionId'', JStr ''zzz'')]) readyWorld =
       readyWorld\<lparr>trace := trace readyWorld @ [Respond 404 (JObj [(''error'', JStr ''Session not found'')])]\<rparr>
   \<and> truthy (field (JObj [(''sessionId'', JStr ''abc'')]) ''sessionId'')
   \<and> activeConnections readyWorld (field (JObj [(''sessionId'', JStr ''abc'')]) ''sessionId'') = Some 0
   \<and> ws (heap (apiDisconnect (JObj [(''sessionId'', JStr ''abc'')]) readyWorld) 0) = Some 1
   \<and> activeConnections (apiDisconnect (JObj [(''sessionId'', JStr ''abc'')]) readyWorld)
        (field (JObj [(''sessionId'', JStr ''abc'')]) ''sessionId'') = None
   \<and> \<not> shouldReconnect (heap (apiDisconnect (JObj [(''sessionId'', JStr ''abc'')]) readyWorld) 0)
   \<and> readyState (sockets (apiDisconnect (JObj [(''sessionId'', JStr ''abc'')]) readyWorld) 1) \<noteq> OPEN
   \<and> intervals readyWorld 2 = Some (HeartbeatTimer 0)
   \<and> intervals (apiDisconnect (JObj [(''sessionId'', JStr ''abc'')]) readyWorld) 2 = None
   \<and> trace (apiDisconnect (JObj [(''sessionId'', JStr ''abc'')]) readyWorld) =
       trace readyWorld
       @ [Close 1, ClearInterval 2,
          Respond 200 (JObj [(''success'', JBool True), (''message'', JStr ''Disconnected successfully'')])]"
proof -
  let ?z = "JObj [(''sessionId'', JStr ''zzz'')]"
  let ?a = "JObj [(''sessionId'', JStr ''abc'')]"
  note A = disconnect_request[of ?a readyWorld 0 2]
  have h1: "\<not> truthy (field (JObj []) ''sessionId'')" by (simp add: field_def)
  have h2: "truthy (field ?z ''sessionId'') \<and> activeConnections readyWorld (field ?z ''sessionId'') = None"
    by (simp add: eval_defs)
  have h3: "truthy (field ?a ''sessionId'') \<and> activeConnections readyWorld (field ?a ''sessionId'') = Some 0"
    by (simp add: eval_defs)
  have h5: "ws (heap readyWorld 0) = Some 1" "readyState (sockets readyWorld 1) = OPEN"
    "heartbeatTask (heap readyWorld 0) = Some 2" "keepAliveTask (heap readyWorld 0) = None"
    "variant readyWorld = Plain" "intervals readyWorld 2 = Some (HeartbeatTimer 0)"
    by (simp_all add: eval_defs)
  from disconnect_request[of "JObj []" readyWorld 0 2] h1
  have c1: "apiDisconnect (JObj []) readyWorld =
       readyWorld\<lparr>trace := trace readyWorld @ [Respond 400 (JObj [(''error'', JStr ''Session ID is required'')])]\<rparr>"
    by blast
  from disconnect_request[of ?z readyWorld 0 2] h2
  have c2: "apiDisconnect ?z readyWorld =
       readyWorld\<lparr>trace := trace readyWorld @ [Respond 404 (JObj [(''error'', JStr ''Session not found'')])]\<rparr>"
    by blast
  from A h3 have hp: "heap (apiDisconnect ?a readyWorld) =
          (heap readyWorld)(0 := (heap readyWorld 0)\<lparr>shouldReconnect := False, currentActivity := JNull,
                                    heartbeatTask := None, keepAliveTask := None\<rparr>)"
    by blast
  from hp h5 have h4: "ws (heap (apiDisconnect ?a readyWorld) 0) = Some 1" by simp
  from A h3 h4
  have c3: "activeConnections (apiDisconnect ?a readyWorld) (field ?a ''sessionId'') = None
      \<and> \<not> shouldReconnect (heap (apiDisconnect ?a readyWorld) 0)
      \<and> readyState (sockets (apiDisconnect ?a readyWorld) 1) \<noteq> OPEN"
    by blast
  from A h3 have "intervals (apiDisconnect ?a readyWorld) 2 =
          (if heartbeatTask (heap readyWorld 0) = Some 2 \<or> keepAliveTask (heap readyWorld 0) = Some 2 then None
           else intervals readyWorld 2)"
    by blast
  with h5 have c4: "intervals (apiDisconnect ?a readyWorld) 2 = None" by simp
  from A h3 have "trace (apiDisconnect ?a readyWorld) =
          trace readyWorld
          @ (case ws (heap readyWorld 0) of
               None \<Rightarrow> []
             | Some k \<Rightarrow>
                 (if readyState (sockets readyWorld k) = OPEN \<or> readyState (sockets readyWorld k) = CONNECTING
                  then [Close k] else []))
          @ (case heartbeatTask (heap readyWorld 0) of Some h \<Rightarrow> [ClearInterval h] | None \<Rightarrow> [])
          @ (case keepAliveTask (heap readyWorld 0) of Some h \<Rightarrow> [ClearInterval h] | None \<Rightarrow> [])
          @ (if variant readyWorld = WithHub
             then (case clientWebSockets readyWorld (JStr (sessionId (heap readyWorld 0))) of
                     None \<Rightarrow> []
                   | Some cw \<Rightarrow> (if clientState (clients readyWorld cw) = OPEN then [ClientSend cw session_ended] else []))
             else [])
          @ [Respond 200 (JObj [(''success'', JBool True), (''message'', JStr ''Disconnected successfully'')])]"
    by blast
  with h5 have c5: "trace (apiDisconnect ?a readyWorld) =
       trace readyWorld
       @ [Close 1, ClearInterval 2,
          Respond 200 (JObj [(''success'', JBool True), (''message'', JStr ''Disconnected successfully'')])]"
    by simp
  from h1 h2 h3 h4 h5(6) c1 c2 c3 c4 c5 show ?thesis by blast
qed

text \<open>
  Claim C7 as stated fails twice. The empty identifier (which
  \<^verbatim>\<open>Math.random().toString(36).substring(7)\<close> can produce) is absent from the registry,
  and the request for it is answered 400, not 404. And a deletion can leave an open
  socket behind: in \<open>droppedWorld\<close> session \<^verbatim>\<open>abc\<close> is held and the reconnect timer 3 is
  pending; the disconnect request deletes the entry and answers 200; the timer fires
  all the same, and in \<open>orphanWorld\<close> the connection, gone from the registry and with
  reconnect disabled, holds the open socket 4, on which its heartbeat timer 5 sends.
\<close>

theorem disconnect_bad_request_or_orphan:
  "activeConnections (init Plain scenarioParseInt) (JStr []) = None
   \<and> trace (step (ApiDisconnect (JObj [(''sessionId'', JStr [])])) (init Plain scenarioParseInt)) =
       [Respond 400 (JObj [(''error'', JStr ''Session ID is required'')])]
   \<and> activeConnections droppedWorld (JStr ''abc'') = Some 0
   \<and> timeouts droppedWorld 3 = Some 0
   \<and> trace (step (ApiDisconnect (JObj [(''sessionId'', JStr ''abc'')])) droppedWorld) =
       trace droppedWorld
       @ [Respond 200 (JObj [(''success'', JBool True), (''message'', JStr ''Disconnected successfully'')])]
   \<and> activeConnections orphanWorld (JStr ''abc'') = None
   \<and> \<not> shouldReconnect (heap orphanWorld 0)
   \<and> ws (heap orphanWorld 0) = Some 4
   \<and> readyState (sockets orphanWorld 4) = OPEN
   \<and> intervals orphanWorld 5 = Some (HeartbeatTimer 0)
   \<and> sentFrames (trace orphanWorld) =
       sentFrames (trace droppedWorld)
       @ [(4, identify (JStr ''tok'')), (4, JObj [(''op'', JNum 1), (''d'', JNum 1)])]"
  by (simp add: eval_defs)

text \<open>
  The theorem of C7 speaks of the state the request returns. \<^verbatim>\<open>disconnect()\<close> clears
  the two intervals and no timeout, and the callback of a reconnect timeout calls
  \<^verbatim>\<open>connect()\<close> without looking at the reconnect flag.
\<close>

lemma pending_reconnect_outlives_disconnect:
  "timeouts (apiDisconnect body w) = timeouts w
   \<and> (\<not> crashed w \<and> timeouts w h = Some c \<longrightarrow>
        ws (heap (step (TimeoutFires h) w) c) = Some (fresh w)
        \<and> readyState (sockets (step (TimeoutFires h) w) (fresh w)) = CONNECTING)"
  by (simp add: apiDisconnect_def Let_def step_def connect_def split: option.splits)

end
